theory Spec2Isabelle
  imports Complex_Main
begin

section \<open>Python values\<close>

text \<open>
  Presets and job snapshots are Python dictionaries of untyped values. The values that
  reach the code are kept as a datatype. A float is kept by its decimal digits:
  \<open>PFloat m k\<close> is the literal \<open>m / 10 ^ k\<close>, so \<open>29.97\<close> is \<open>PFloat 2997 2\<close>.
  Dictionary values keep their insertion order, which \<open>items()\<close> follows; their keys
  are strings.
\<close>

datatype pyval =
    PNone
  | PBool bool
  | PInt int
  | PFloat int nat
  | PStr string
  | PTuple "pyval list"
  | PDict "(string \<times> pyval) list"

text \<open>A dictionary that is only read by key (\<open>d.get(k)\<close>, \<open>k in d\<close>, \<open>d[k]\<close>).\<close>

type_synonym pydict = "string \<rightharpoonup> pyval"

datatype error = TypeError | ValueError | AttributeError | KeyError | AIDPError string

text \<open>Truth value testing, as \<open>if v:\<close> and \<open>and\<close>/\<open>or\<close>/\<open>not\<close> do it.\<close>

fun truthy :: "pyval \<Rightarrow> bool" where
  "truthy PNone = False"
| "truthy (PBool b) = b"
| "truthy (PInt i) = (i \<noteq> 0)"
| "truthy (PFloat m k) = (m \<noteq> 0)"
| "truthy (PStr s) = (s \<noteq> [])"
| "truthy (PTuple xs) = (xs \<noteq> [])"
| "truthy (PDict kvs) = (kvs \<noteq> [])"

text \<open>\<open>d.get(k, dflt)\<close>; \<open>d.get(k)\<close> is \<open>dict_get d k PNone\<close>.\<close>

definition dict_get :: "pydict \<Rightarrow> string \<Rightarrow> pyval \<Rightarrow> pyval" where
  "dict_get d k dflt = (case d k of None \<Rightarrow> dflt | Some v \<Rightarrow> v)"

text \<open>\<open>d[k]\<close> raises KeyError on a missing key.\<close>

definition dict_item :: "pydict \<Rightarrow> string \<Rightarrow> error + pyval" where
  "dict_item d k = (case d k of None \<Rightarrow> Inl KeyError | Some v \<Rightarrow> Inr v)"

text \<open>
  \<open>w, h = v\<close>: a tuple, string or dictionary of exactly two items unpacks (a string into
  its characters, a dictionary into its keys); another length raises ValueError and a
  value that is not iterable raises TypeError.
\<close>

fun unpack2 :: "pyval \<Rightarrow> error + (pyval \<times> pyval)" where
  "unpack2 (PTuple [a, b]) = Inr (a, b)"
| "unpack2 (PTuple xs) = Inl ValueError"
| "unpack2 (PStr [a, b]) = Inr (PStr [a], PStr [b])"
| "unpack2 (PStr s) = Inl ValueError"
| "unpack2 (PDict [(k1, v1), (k2, v2)]) = Inr (PStr k1, PStr k2)"
| "unpack2 (PDict kvs) = Inl ValueError"
| "unpack2 v = Inl TypeError"

text \<open>\<open>sub in s\<close> on strings: \<open>sub\<close> occurs in \<open>s\<close> as a contiguous substring.\<close>

fun str_contains :: "string \<Rightarrow> string \<Rightarrow> bool" where
  "str_contains sub [] = (sub = [])"
| "str_contains sub (c # cs) = (take (length sub) (c # cs) = sub \<or> str_contains sub cs)"

text \<open>
  \<open>sub in v\<close> for a string \<open>sub\<close>: substring test on a string, membership on a tuple,
  key membership on a dictionary, TypeError on a value that is no container.
\<close>

fun py_contains :: "string \<Rightarrow> pyval \<Rightarrow> error + bool" where
  "py_contains sub (PStr s) = Inr (str_contains sub s)"
| "py_contains sub (PTuple xs) = Inr (PStr sub \<in> set xs)"
| "py_contains sub (PDict kvs) = Inr (sub \<in> fst ` set kvs)"
| "py_contains sub v = Inl TypeError"

text \<open>Whether a value can be a dictionary key: dictionaries cannot, tuples of them neither.\<close>

fun hashable :: "pyval \<Rightarrow> bool" where
  "hashable (PDict kvs) = False"
| "hashable (PTuple xs) = (\<forall>x \<in> set xs. hashable x)"
| "hashable v = True"

text \<open>\<open>sep.join(xs)\<close>.\<close>

fun join :: "string \<Rightarrow> string list \<Rightarrow> string" where
  "join sep [] = []"
| "join sep [x] = x"
| "join sep (x # y # ys) = x @ sep @ join sep (y # ys)"

subsection \<open>Formatting\<close>

text \<open>
  \<open>str(v)\<close> and \<open>f"{v}"\<close> belong to the language, not to the repository: the functions
  below take the formatting function as their first argument \<open>fmt\<close>, and what is proved
  about them holds for every such function. \<open>py_str\<close> is Python's \<open>str\<close> on the values
  of the presets: integers in decimal, floats in positional notation with the digits
  they are written with, containers with the \<open>repr\<close> of their items (a string item in
  single quotes, which is Python's choice for a string with no quote, backslash or
  control character in it).
\<close>

definition digit_char :: "nat \<Rightarrow> char" where
  "digit_char d = ''0123456789'' ! (d mod 10)"

function show_nat :: "nat \<Rightarrow> string" where
  "show_nat n = (if n < 10 then [digit_char n] else show_nat (n div 10) @ [digit_char n])"
  by pat_completeness auto
termination
  by (relation "measure id") auto

declare show_nat.simps [simp del]

definition show_int :: "int \<Rightarrow> string" where
  "show_int i = (if i < 0 then ''-'' @ show_nat (nat (- i)) else show_nat (nat i))"

definition show_float :: "int \<Rightarrow> nat \<Rightarrow> string" where
  "show_float m k =
     (let a = nat \<bar>m\<bar>; frac = show_nat (a mod 10 ^ k)
      in (if m < 0 then ''-'' else []) @ show_nat (a div 10 ^ k) @ ''.'' @
         (if k = 0 then ''0'' else replicate (k - length frac) CHR ''0'' @ frac))"

fun py_str :: "pyval \<Rightarrow> string" where
  "py_str PNone = ''None''"
| "py_str (PBool b) = (if b then ''True'' else ''False'')"
| "py_str (PInt i) = show_int i"
| "py_str (PFloat m k) = show_float m k"
| "py_str (PStr s) = s"
| "py_str (PTuple xs) =
     ''('' @ join '', '' (map (\<lambda>x. case x of PStr s \<Rightarrow> [CHR 0x27] @ s @ [CHR 0x27] | _ \<Rightarrow> py_str x) xs)
       @ (if length xs = 1 then '','' else []) @ '')''"
| "py_str (PDict kvs) =
     ''{'' @ join '', '' (map (\<lambda>kv. [CHR 0x27] @ fst kv @ [CHR 0x27] @ '': '' @
              (case snd kv of PStr s \<Rightarrow> [CHR 0x27] @ s @ [CHR 0x27] | _ \<Rightarrow> py_str (snd kv))) kvs)
       @ ''}''"

section \<open>The filter-chain compiler (gpu_pipeline.py)\<close>

text \<open>
  The object's fields: the path of the encoder binary and the two flags that
  \<open>_check_gpu_support\<close> sets from the binary's own lists (the accelerated encoder and
  the accelerated filters). The flags are independent of each other.
\<close>

record GPUPipeline =
  ffmpeg_path :: string
  has_nvenc :: bool
  has_cuda :: bool

text \<open>
  One constructor for each \<open>filters.append\<close> of \<open>_build_filter_chain\<close>, carrying the
  values the appended string is formatted from; the flag of \<open>Scale\<close>, \<open>Deinterlace\<close>
  and \<open>ToneMap\<close> says whether the accelerated filter is the one appended.
\<close>

datatype stage =
    is_Upload: Upload
  | is_Scale: Scale pyval pyval bool
  | is_Deinterlace: Deinterlace bool
  | is_ToneMap: ToneMap bool
  | is_FrameRateConvert: FrameRateConvert pyval
  | is_Download: Download
  | is_ColorLUT: ColorLUT pyval
  | is_ColorCorrect: ColorCorrect "(string \<times> pyval) list"
  | is_Sharpen: Sharpen pyval
  | is_Grain: Grain pyval
  | is_Letterbox: Letterbox pyval
  | is_Vignette: Vignette pyval

text \<open>The string each \<open>filters.append\<close> appends.\<close>

fun render :: "(pyval \<Rightarrow> string) \<Rightarrow> stage \<Rightarrow> string" where
  "render fmt Upload = ''hwupload_cuda''"
| "render fmt (Scale w h accel) =
     (if accel then ''scale_cuda='' @ fmt w @ '':'' @ fmt h
      else ''scale='' @ fmt w @ '':'' @ fmt h)"
| "render fmt (Deinterlace accel) = (if accel then ''yadif_cuda=0:-1:0'' else ''yadif=0:-1:0'')"
| "render fmt (ToneMap accel) =
     (if accel then ''tonemap_cuda=tonemap=hable:peak=100''
      else ''zscale=t=linear:npl=100,tonemap=hable,zscale=t=bt709'')"
| "render fmt (FrameRateConvert r) = ''fps='' @ fmt r"
| "render fmt Download = ''hwdownload,format=nv12''"
| "render fmt (ColorLUT p) = ''lut3d='' @ [CHR 0x27] @ fmt p @ [CHR 0x27]"
| "render fmt (ColorCorrect kvs) =
     ''eq='' @ join '','' (map (\<lambda>kv. fmt (PStr (fst kv)) @ ''='' @ fmt (snd kv)) kvs)"
| "render fmt (Sharpen u) = ''unsharp='' @ fmt u"
| "render fmt (Grain g) = ''noise=c0s='' @ fmt g @ '':c0f=t+u''"
| "render fmt (Letterbox a) = ''pad=iw:iw/'' @ fmt a @ '':(ow-iw)/2:(oh-ih)/2:black''"
| "render fmt (Vignette v) = ''vignette=angle='' @ fmt v"

text \<open>\<open>use_cuda = self.has_cuda and preset.get("use_cuda", True)\<close>, as a condition.\<close>

definition use_cuda :: "GPUPipeline \<Rightarrow> pydict \<Rightarrow> bool" where
  "use_cuda self preset = (has_cuda self \<and> truthy (dict_get preset ''use_cuda'' (PBool True)))"

text \<open>\<open>needs_cpu_filters = lut_path or preset.get("eq") or preset.get("unsharp")\<close>.\<close>

definition needs_cpu_filters :: "pydict \<Rightarrow> pyval \<Rightarrow> bool" where
  "needs_cpu_filters preset lut_path =
     (truthy lut_path \<or> truthy (dict_get preset ''eq'' PNone)
        \<or> truthy (dict_get preset ''unsharp'' PNone))"

text \<open>
  The scaling block: \<open>if "scale" in preset: w, h = preset["scale"]\<close>, which raises when
  the value does not unpack into two items.
\<close>

definition scale_stage :: "bool \<Rightarrow> pydict \<Rightarrow> error + stage list" where
  "scale_stage cuda preset =
     (case preset ''scale'' of
        None \<Rightarrow> Inr []
      | Some sc \<Rightarrow> (case unpack2 sc of Inl e \<Rightarrow> Inl e | Inr (w, h) \<Rightarrow> Inr [Scale w h cuda]))"

text \<open>
  The color correction block: \<open>if preset.get("eq"): eq = preset["eq"]; eq.items()\<close>,
  which raises when the value is true and no dictionary.
\<close>

definition eq_stage :: "pydict \<Rightarrow> error + stage list" where
  "eq_stage preset =
     (if truthy (dict_get preset ''eq'' PNone)
      then (case dict_get preset ''eq'' PNone of
              PDict kvs \<Rightarrow> Inr [ColorCorrect kvs]
            | _ \<Rightarrow> Inl AttributeError)
      else Inr [])"

text \<open>
  The list \<open>filters\<close> at the end of \<open>_build_filter_chain\<close>, block by block in the order
  of the source, given what the scaling block and the color correction block append.
\<close>

definition filters_in_order ::
  "bool \<Rightarrow> pydict \<Rightarrow> pyval \<Rightarrow> stage list \<Rightarrow> stage list \<Rightarrow> stage list" where
  "filters_in_order cuda preset lut_path scale eq =
     (if cuda \<and> \<not> truthy (dict_get preset ''hwaccel'' (PBool True)) then [Upload] else [])
     @ scale
     @ (if truthy (dict_get preset ''deinterlace'' PNone) then [Deinterlace cuda] else [])
     @ (if truthy (dict_get preset ''tonemap'' PNone) then [ToneMap cuda] else [])
     @ (case preset ''fps'' of None \<Rightarrow> [] | Some r \<Rightarrow> [FrameRateConvert r])
     @ (if cuda \<and> needs_cpu_filters preset lut_path then [Download] else [])
     @ (if truthy lut_path then [ColorLUT lut_path] else [])
     @ eq
     @ (if truthy (dict_get preset ''unsharp'' PNone)
        then [Sharpen (dict_get preset ''unsharp'' PNone)] else [])
     @ (if truthy (dict_get preset ''grain'' PNone)
        then [Grain (dict_get preset ''grain'' PNone)] else [])
     @ (if truthy (dict_get preset ''letterbox'' PNone)
        then [Letterbox (dict_get preset ''letterbox'' PNone)] else [])
     @ (if truthy (dict_get preset ''vignette'' PNone)
        then [Vignette (dict_get preset ''vignette'' PNone)] else [])"

text \<open>
  The stages of \<open>_build_filter_chain\<close>. The scaling block runs, and raises, before the
  color correction block; no other statement of the function raises.
\<close>

definition filter_stages :: "GPUPipeline \<Rightarrow> pydict \<Rightarrow> pyval \<Rightarrow> error + stage list" where
  "filter_stages self preset lut_path =
     (let cuda = use_cuda self preset
      in case scale_stage cuda preset of
           Inl e \<Rightarrow> Inl e
         | Inr scale \<Rightarrow>
            (case eq_stage preset of
               Inl e \<Rightarrow> Inl e
             | Inr eq \<Rightarrow> Inr (filters_in_order cuda preset lut_path scale eq)))"

text \<open>\<open>_build_filter_chain\<close>: \<open>",".join(filters) if filters else ""\<close>.\<close>

definition build_filter_chain ::
  "(pyval \<Rightarrow> string) \<Rightarrow> GPUPipeline \<Rightarrow> pydict \<Rightarrow> pyval \<Rightarrow> error + string" where
  "build_filter_chain fmt self preset lut_path =
     (case filter_stages self preset lut_path of
        Inl e \<Rightarrow> Inl e
      | Inr filters \<Rightarrow> Inr (if filters \<noteq> [] then join '','' (map (render fmt) filters) else []))"

section \<open>The command compiler (gpu_pipeline.py)\<close>

text \<open>The table \<open>NVENC_PRESETS\<close>.\<close>

definition NVENC_PRESETS :: "string \<rightharpoonup> string" where
  "NVENC_PRESETS = map_of
     [(''fastest'', ''p1''), (''fast'', ''p2''), (''medium'', ''p4''),
      (''slow'', ''p5''), (''quality'', ''p6''), (''best'', ''p7'')]"

text \<open>
  \<open>self.NVENC_PRESETS.get(key, "p4")\<close>: a key that cannot be hashed raises TypeError;
  a key that is no string equals none of the table's keys.
\<close>

definition nvenc_preset_get :: "pyval \<Rightarrow> error + pyval" where
  "nvenc_preset_get key =
     (if \<not> hashable key then Inl TypeError
      else case key of
             PStr s \<Rightarrow> (case NVENC_PRESETS s of None \<Rightarrow> Inr (PStr ''p4'') | Some v \<Rightarrow> Inr (PStr v))
           | _ \<Rightarrow> Inr (PStr ''p4''))"

text \<open>
  \<open>encoder = preset.get("encoder", "h264_nvenc" if self.has_nvenc else "libx264")\<close>
\<close>

definition select_encoder :: "GPUPipeline \<Rightarrow> pydict \<Rightarrow> pyval" where
  "select_encoder self preset =
     dict_get preset ''encoder'' (PStr (if has_nvenc self then ''h264_nvenc'' else ''libx264''))"

text \<open>The arguments added before the input: the binary, and the decoding flags.\<close>

definition decode_args :: "GPUPipeline \<Rightarrow> pydict \<Rightarrow> pyval list" where
  "decode_args self preset =
     [PStr (ffmpeg_path self), PStr ''-hide_banner'', PStr ''-y''] @
     (if truthy (dict_get preset ''hwaccel'' (PBool True)) \<and> has_nvenc self
      then [PStr ''-hwaccel'', PStr ''cuda'', PStr ''-hwaccel_output_format'', PStr ''cuda'']
      else [])"

text \<open>\<open>if filters: cmd.extend(["-vf", filters])\<close>\<close>

definition filter_args :: "string \<Rightarrow> pyval list" where
  "filter_args filters = (if filters \<noteq> [] then [PStr ''-vf'', PStr filters] else [])"

text \<open>
  The video encoding block: the encoder, then the options of the accelerated encoder
  when \<open>"nvenc" in encoder\<close>, the options of the software encoder otherwise.
\<close>

definition video_args :: "(pyval \<Rightarrow> string) \<Rightarrow> GPUPipeline \<Rightarrow> pydict \<Rightarrow> error + pyval list" where
  "video_args fmt self preset =
     (let encoder = select_encoder self preset
      in case py_contains ''nvenc'' encoder of
           Inl e \<Rightarrow> Inl e
         | Inr True \<Rightarrow>
             (case nvenc_preset_get (dict_get preset ''speed'' (PStr ''medium'')) of
                Inl e \<Rightarrow> Inl e
              | Inr nvenc_preset \<Rightarrow>
                 Inr ([PStr ''-c:v'', encoder,
                       PStr ''-preset'', nvenc_preset,
                       PStr ''-rc'', dict_get preset ''rate_control'' (PStr ''vbr''),
                       PStr ''-cq'', PStr (fmt (dict_get preset ''cq'' (PInt 23))),
                       PStr ''-b:v'', dict_get preset ''bitrate'' (PStr ''0''),
                       PStr ''-maxrate'', dict_get preset ''maxrate'' (PStr ''50M''),
                       PStr ''-bufsize'', dict_get preset ''bufsize'' (PStr ''100M'')] @
                      (if truthy (dict_get preset ''tune'' PNone)
                       then [PStr ''-tune'', dict_get preset ''tune'' PNone] else []) @
                      [PStr ''-bf'', PStr (fmt (dict_get preset ''bframes'' (PInt 3)))]))
         | Inr False \<Rightarrow>
             Inr [PStr ''-c:v'', encoder,
                  PStr ''-preset'', dict_get preset ''cpu_preset'' (PStr ''medium''),
                  PStr ''-crf'', PStr (fmt (dict_get preset ''crf'' (PInt 23)))])"

text \<open>The audio encoding block.\<close>

definition audio_args :: "(pyval \<Rightarrow> string) \<Rightarrow> pydict \<Rightarrow> pyval list" where
  "audio_args fmt preset =
     (let audio_codec = dict_get preset ''audio_codec'' (PStr ''aac'')
      in if audio_codec = PStr ''copy'' then [PStr ''-c:a'', PStr ''copy'']
         else [PStr ''-c:a'', audio_codec,
               PStr ''-b:a'', dict_get preset ''audio_bitrate'' (PStr ''128k''),
               PStr ''-ar'', PStr (fmt (dict_get preset ''audio_sample_rate'' (PInt 48000)))])"

text \<open>The output options and the output path.\<close>

definition output_args :: "pydict \<Rightarrow> string \<Rightarrow> pyval list" where
  "output_args preset output_path =
     (if truthy (dict_get preset ''faststart'' (PBool True))
      then [PStr ''-movflags'', PStr ''+faststart''] else []) @ [PStr output_path]"

text \<open>
  \<open>build_gpu_command\<close>: the argument list \<open>cmd\<close>, block after block as the source
  extends it. An exception of the filter chain is raised before one of the video block.
\<close>

definition build_gpu_command ::
  "(pyval \<Rightarrow> string) \<Rightarrow> GPUPipeline \<Rightarrow> string \<Rightarrow> string \<Rightarrow> pydict \<Rightarrow> pyval
     \<Rightarrow> error + pyval list" where
  "build_gpu_command fmt self input_path output_path preset lut_path =
     (case build_filter_chain fmt self preset lut_path of
        Inl e \<Rightarrow> Inl e
      | Inr filters \<Rightarrow>
         (case video_args fmt self preset of
            Inl e \<Rightarrow> Inl e
          | Inr video \<Rightarrow>
             Inr (decode_args self preset @ [PStr ''-i'', PStr input_path] @ filter_args filters
                    @ video @ audio_args fmt preset @ output_args preset output_path)))"

section \<open>The preset catalog (presets.py)\<close>

definition preset_default :: pydict where
  "preset_default = map_of
     [(''description'', PStr ''Standard web-optimized output with GPU encoding''),
      (''encoder'', PStr ''h264_nvenc''),
      (''speed'', PStr ''medium''),
      (''cq'', PInt 23),
      (''rate_control'', PStr ''vbr''),
      (''audio_codec'', PStr ''aac''),
      (''audio_bitrate'', PStr ''128k''),
      (''faststart'', PBool True),
      (''min_vram_gb'', PInt 4)]"

definition preset_cinematic :: pydict where
  "preset_cinematic = map_of
     [(''description'', PStr ''Film-like output with teal-orange grade, grain, and letterbox''),
      (''encoder'', PStr ''h264_nvenc''),
      (''speed'', PStr ''quality''),
      (''cq'', PInt 20),
      (''rate_control'', PStr ''vbr''),
      (''bframes'', PInt 4),
      (''eq'', PDict [(''brightness'', PFloat 2 2), (''contrast'', PFloat 11 1),
                      (''saturation'', PFloat 115 2)]),
      (''grain'', PInt 8),
      (''letterbox'', PFloat 239 2),
      (''unsharp'', PStr ''5:5:0.5:5:5:0.5''),
      (''audio_codec'', PStr ''aac''),
      (''audio_bitrate'', PStr ''192k''),
      (''faststart'', PBool True),
      (''min_vram_gb'', PInt 6),
      (''preferred_lut'', PStr ''Cinematic_Teal_Orange.cube'')]"

definition preset_broadcast :: pydict where
  "preset_broadcast = map_of
     [(''description'', PStr ''Broadcast-safe output for TV/streaming platforms''),
      (''encoder'', PStr ''h264_nvenc''),
      (''speed'', PStr ''quality''),
      (''cq'', PInt 18),
      (''rate_control'', PStr ''cbr''),
      (''bitrate'', PStr ''15M''),
      (''maxrate'', PStr ''20M''),
      (''bufsize'', PStr ''30M''),
      (''scale'', PTuple [PInt 1920, PInt 1080]),
      (''fps'', PFloat 2997 2),
      (''audio_codec'', PStr ''aac''),
      (''audio_bitrate'', PStr ''256k''),
      (''audio_sample_rate'', PInt 48000),
      (''faststart'', PBool True),
      (''min_vram_gb'', PInt 6),
      (''preferred_lut'', PStr ''Broadcast_Safe.cube'')]"

definition preset_social_vertical :: pydict where
  "preset_social_vertical = map_of
     [(''description'', PStr ''Vertical 9:16 output optimized for TikTok/Reels/Shorts''),
      (''encoder'', PStr ''h264_nvenc''),
      (''speed'', PStr ''fast''),
      (''cq'', PInt 22),
      (''rate_control'', PStr ''vbr''),
      (''scale'', PTuple [PInt 1080, PInt 1920]),
      (''fps'', PInt 30),
      (''eq'', PDict [(''brightness'', PFloat 3 2), (''contrast'', PFloat 108 2),
                      (''saturation'', PFloat 12 1)]),
      (''unsharp'', PStr ''3:3:0.8''),
      (''audio_codec'', PStr ''aac''),
      (''audio_bitrate'', PStr ''128k''),
      (''faststart'', PBool True),
      (''min_vram_gb'', PInt 4)]"

definition preset_hdr_to_sdr :: pydict where
  "preset_hdr_to_sdr = map_of
     [(''description'', PStr ''Convert HDR content to SDR with GPU tone mapping''),
      (''encoder'', PStr ''h264_nvenc''),
      (''speed'', PStr ''medium''),
      (''cq'', PInt 20),
      (''rate_control'', PStr ''vbr''),
      (''hwaccel'', PBool True),
      (''tonemap'', PBool True),
      (''audio_codec'', PStr ''copy''),
      (''faststart'', PBool True),
      (''min_vram_gb'', PInt 8),
      (''cuda_compute'', PStr ''7.5'')]"

definition preset_hevc_master :: pydict where
  "preset_hevc_master = map_of
     [(''description'', PStr ''High-quality HEVC output for archival/master''),
      (''encoder'', PStr ''hevc_nvenc''),
      (''speed'', PStr ''quality''),
      (''cq'', PInt 18),
      (''rate_control'', PStr ''vbr''),
      (''bframes'', PInt 4),
      (''audio_codec'', PStr ''aac''),
      (''audio_bitrate'', PStr ''320k''),
      (''audio_sample_rate'', PInt 48000),
      (''faststart'', PBool True),
      (''min_vram_gb'', PInt 8)]"

definition preset_fast_preview :: pydict where
  "preset_fast_preview = map_of
     [(''description'', PStr ''Fast preview encode for quick review''),
      (''encoder'', PStr ''h264_nvenc''),
      (''speed'', PStr ''fastest''),
      (''cq'', PInt 28),
      (''rate_control'', PStr ''vbr''),
      (''scale'', PTuple [PInt 1280, PInt 720]),
      (''fps'', PInt 30),
      (''audio_codec'', PStr ''aac''),
      (''audio_bitrate'', PStr ''96k''),
      (''faststart'', PBool True),
      (''min_vram_gb'', PInt 2)]"

definition preset_youtube :: pydict where
  "preset_youtube = map_of
     [(''description'', PStr ''YouTube recommended settings with GPU encoding''),
      (''encoder'', PStr ''h264_nvenc''),
      (''speed'', PStr ''medium''),
      (''cq'', PInt 18),
      (''rate_control'', PStr ''vbr''),
      (''bitrate'', PStr ''0''),
      (''maxrate'', PStr ''40M''),
      (''bufsize'', PStr ''80M''),
      (''bframes'', PInt 2),
      (''scale'', PTuple [PInt 3840, PInt 2160]),
      (''fps'', PInt 60),
      (''audio_codec'', PStr ''aac''),
      (''audio_bitrate'', PStr ''384k''),
      (''audio_sample_rate'', PInt 48000),
      (''faststart'', PBool True),
      (''min_vram_gb'', PInt 8)]"

definition preset_netflix :: pydict where
  "preset_netflix = map_of
     [(''description'', PStr ''Netflix delivery specification''),
      (''encoder'', PStr ''hevc_nvenc''),
      (''speed'', PStr ''quality''),
      (''cq'', PInt 16),
      (''rate_control'', PStr ''vbr''),
      (''bitrate'', PStr ''0''),
      (''maxrate'', PStr ''25M''),
      (''bufsize'', PStr ''50M''),
      (''bframes'', PInt 4),
      (''scale'', PTuple [PInt 3840, PInt 2160]),
      (''fps'', PFloat 23976 3),
      (''audio_codec'', PStr ''aac''),
      (''audio_bitrate'', PStr ''448k''),
      (''audio_sample_rate'', PInt 48000),
      (''faststart'', PBool True),
      (''min_vram_gb'', PInt 10)]"

definition preset_vintage_film :: pydict where
  "preset_vintage_film = map_of
     [(''description'', PStr ''Vintage film look with faded colors and heavy grain''),
      (''encoder'', PStr ''h264_nvenc''),
      (''speed'', PStr ''quality''),
      (''cq'', PInt 20),
      (''rate_control'', PStr ''vbr''),
      (''eq'', PDict [(''brightness'', PFloat (- 2) 2), (''contrast'', PFloat 95 2),
                      (''saturation'', PFloat 7 1), (''gamma'', PFloat 11 1)]),
      (''grain'', PInt 25),
      (''vignette'', PFloat 4 1),
      (''letterbox'', PFloat 166 2),
      (''audio_codec'', PStr ''aac''),
      (''audio_bitrate'', PStr ''128k''),
      (''faststart'', PBool True),
      (''min_vram_gb'', PInt 6),
      (''preferred_lut'', PStr ''Vintage_Fade.cube'')]"

definition preset_documentary :: pydict where
  "preset_documentary = map_of
     [(''description'', PStr ''Clean, natural look for documentary content''),
      (''encoder'', PStr ''h264_nvenc''),
      (''speed'', PStr ''quality''),
      (''cq'', PInt 19),
      (''rate_control'', PStr ''vbr''),
      (''eq'', PDict [(''brightness'', PFloat 1 2), (''contrast'', PFloat 102 2),
                      (''saturation'', PFloat 95 2)]),
      (''unsharp'', PStr ''3:3:0.3''),
      (''audio_codec'', PStr ''aac''),
      (''audio_bitrate'', PStr ''192k''),
      (''faststart'', PBool True),
      (''min_vram_gb'', PInt 6),
      (''preferred_lut'', PStr ''Documentary_Natural.cube'')]"

definition preset_action :: pydict where
  "preset_action = map_of
     [(''description'', PStr ''High contrast, punchy colors for action content''),
      (''encoder'', PStr ''h264_nvenc''),
      (''speed'', PStr ''medium''),
      (''cq'', PInt 19),
      (''rate_control'', PStr ''vbr''),
      (''bframes'', PInt 2),
      (''eq'', PDict [(''brightness'', PFloat 0 1), (''contrast'', PFloat 125 2),
                      (''saturation'', PFloat 13 1)]),
      (''unsharp'', PStr ''5:5:1.0:5:5:0.5''),
      (''audio_codec'', PStr ''aac''),
      (''audio_bitrate'', PStr ''256k''),
      (''faststart'', PBool True),
      (''min_vram_gb'', PInt 6),
      (''preferred_lut'', PStr ''Blockbuster_Action.cube'')]"

text \<open>The dictionary \<open>PRESETS\<close>, from a preset's name to the preset.\<close>

definition PRESETS :: "string \<rightharpoonup> pydict" where
  "PRESETS = map_of
     [(''default'', preset_default),
      (''cinematic'', preset_cinematic),
      (''broadcast'', preset_broadcast),
      (''social_vertical'', preset_social_vertical),
      (''hdr_to_sdr'', preset_hdr_to_sdr),
      (''hevc_master'', preset_hevc_master),
      (''fast_preview'', preset_fast_preview),
      (''youtube'', preset_youtube),
      (''netflix'', preset_netflix),
      (''vintage_film'', preset_vintage_film),
      (''documentary'', preset_documentary),
      (''action'', preset_action)]"

text \<open>
  \<open>get_preset\<close>: \<open>PRESETS.get(name, PRESETS["default"])\<close>. The default argument is
  evaluated first, whatever the name: a catalog without \<open>"default"\<close> would raise KeyError.
\<close>

definition get_preset :: "string \<Rightarrow> error + pydict" where
  "get_preset name =
     (case PRESETS ''default'' of
        None \<Rightarrow> Inl KeyError
      | Some dflt \<Rightarrow> Inr (case PRESETS name of None \<Rightarrow> dflt | Some p \<Rightarrow> p))"

section \<open>The job client (aidp_client.py) and the batch run (forge.py)\<close>

text \<open>
  The remote network and the clock are the environment of the client. What the network
  answers to the \<open>n\<close>-th status request for a job, what the \<open>n\<close>-th reading of
  \<open>time.time()\<close> returns (in seconds), and whether a download fails, are given by three
  functions; nothing is assumed about them. A job that never reports a terminal state is
  an environment whose every answer is a non-terminal snapshot.
\<close>

record env =
  status_reply :: "string \<Rightarrow> nat \<Rightarrow> error + pydict"
  clock :: "nat \<Rightarrow> rat"
  download_reply :: "pyval \<Rightarrow> error option"

text \<open>
  What the client has done so far: the number of clock readings taken, the number of
  status requests sent for each job, the files downloaded (file identifier and output
  path) and the completion lines printed by the batch run (the counter and the input
  name), both in order.
\<close>

record world =
  ticks :: nat
  polled :: "string \<Rightarrow> nat"
  downloaded :: "(pyval \<times> string) list"
  reported :: "(nat \<times> string) list"

text \<open>\<open>time.time()\<close>\<close>

definition time_now :: "env \<Rightarrow> world \<Rightarrow> rat \<times> world" where
  "time_now e w = (clock e (ticks w), w\<lparr>ticks := Suc (ticks w)\<rparr>)"

text \<open>
  \<open>get_job_status\<close>: one status request; a response other than 200 raises the
  \<open>AIDPError\<close> that the environment's answer carries.
\<close>

definition get_job_status :: "env \<Rightarrow> string \<Rightarrow> world \<Rightarrow> (error + pydict) \<times> world" where
  "get_job_status e jid w =
     (status_reply e jid (polled w jid), w\<lparr>polled := (polled w)(jid := Suc (polled w jid))\<rparr>)"

text \<open>The two failures \<open>wait_for_job\<close> raises itself.\<close>

definition job_failed_error :: "(pyval \<Rightarrow> string) \<Rightarrow> pydict \<Rightarrow> error" where
  "job_failed_error fmt status =
     AIDPError (''Job failed: '' @ fmt (dict_get status ''error'' (PStr ''Unknown error'')))"

definition job_timeout_error :: "(pyval \<Rightarrow> string) \<Rightarrow> int \<Rightarrow> error" where
  "job_timeout_error fmt timeout =
     AIDPError (''Job timed out after '' @ fmt (PInt timeout) @ '' seconds'')"

text \<open>
  The loop \<open>while True\<close> of \<open>wait_for_job\<close>, without a progress callback (the batch run
  passes none). The sleep between two polls only lets time pass, which the clock of the
  environment shows. The loop need not end: not returning is the value \<open>None\<close>.
\<close>

partial_function (option) wait_loop ::
  "(pyval \<Rightarrow> string) \<Rightarrow> env \<Rightarrow> string \<Rightarrow> int \<Rightarrow> rat \<Rightarrow> world
     \<Rightarrow> ((error + pydict) \<times> world) option" where
  "wait_loop fmt e jid timeout start_time w =
     (case get_job_status e jid w of
        (Inl err, w1) \<Rightarrow> Some (Inl err, w1)
      | (Inr status, w1) \<Rightarrow>
         (case dict_item status ''status'' of
            Inl err \<Rightarrow> Some (Inl err, w1)
          | Inr s \<Rightarrow>
             if s = PStr ''completed'' then Some (Inr status, w1)
             else if s = PStr ''failed'' then Some (Inl (job_failed_error fmt status), w1)
             else (case time_now e w1 of
                     (now, w2) \<Rightarrow>
                       if now - start_time > of_int timeout
                       then Some (Inl (job_timeout_error fmt timeout), w2)
                       else wait_loop fmt e jid timeout start_time w2)))"

declare wait_loop.simps [code]

text \<open>\<open>wait_for_job\<close>: \<open>start_time = time.time()\<close>, then the loop.\<close>

definition wait_for_job ::
  "(pyval \<Rightarrow> string) \<Rightarrow> env \<Rightarrow> string \<Rightarrow> int \<Rightarrow> world \<Rightarrow> ((error + pydict) \<times> world) option" where
  "wait_for_job fmt e jid timeout w =
     (case time_now e w of (start_time, w1) \<Rightarrow> wait_loop fmt e jid timeout start_time w1)"

text \<open>\<open>download_file\<close>: a failed request raises, a successful one writes the output file.\<close>

definition download_file :: "env \<Rightarrow> pyval \<Rightarrow> string \<Rightarrow> world \<Rightarrow> (error + string) \<times> world" where
  "download_file e file_id output_path w =
     (case download_reply e file_id of
        Some err \<Rightarrow> (Inl err, w)
      | None \<Rightarrow> (Inr output_path, w\<lparr>downloaded := downloaded w @ [(file_id, output_path)]\<rparr>))"

text \<open>An entry of the list \<open>jobs\<close> that \<open>batch_process\<close> builds while it submits, with
  its keys \<open>job_id\<close>, \<open>input\<close> and \<open>output\<close>.\<close>

record batch_job =
  job_id :: string
  job_input :: string
  job_output :: string

text \<open>
  The loop \<open>for job in jobs\<close> of \<open>batch_process\<close>, from the value \<open>completed\<close> on: wait for
  the job with the default timeout of 3600 seconds, download its result, count it and
  print the completion line. Nothing in the loop catches an exception, so the first one
  ends the loop and is the result.
\<close>

fun wait_all ::
  "(pyval \<Rightarrow> string) \<Rightarrow> env \<Rightarrow> nat \<Rightarrow> batch_job list \<Rightarrow> world \<Rightarrow> ((error + nat) \<times> world) option" where
  "wait_all fmt e completed [] w = Some (Inr completed, w)"
| "wait_all fmt e completed (j # js) w =
     (case wait_for_job fmt e (job_id j) 3600 w of
        None \<Rightarrow> None
      | Some (Inl err, w1) \<Rightarrow> Some (Inl err, w1)
      | Some (Inr result, w1) \<Rightarrow>
         (case dict_item result ''output_file_id'' of
            Inl err \<Rightarrow> Some (Inl err, w1)
          | Inr file_id \<Rightarrow>
             (case download_file e file_id (job_output j) w1 of
                (Inl err, w2) \<Rightarrow> Some (Inl err, w2)
              | (Inr path, w2) \<Rightarrow>
                  wait_all fmt e (Suc completed) js
                    (w2\<lparr>reported := reported w2 @ [(Suc completed, job_input j)]\<rparr>))))"

text \<open>A status answer that is a snapshot in neither terminal state.\<close>

definition non_terminal :: "error + pydict \<Rightarrow> bool" where
  "non_terminal r =
     (case r of
        Inl err \<Rightarrow> False
      | Inr status \<Rightarrow>
         (case status ''status'' of
            None \<Rightarrow> False
          | Some s \<Rightarrow> s \<noteq> PStr ''completed'' \<and> s \<noteq> PStr ''failed''))"

subsection \<open>The environments of the scenarios\<close>

definition world0 :: world where
  "world0 = \<lparr>ticks = 0, polled = (\<lambda>jid. 0), downloaded = [], reported = []\<rparr>"

text \<open>Every job is running at every poll; each clock reading is one second later.\<close>

definition env_running :: env where
  "env_running =
     \<lparr>status_reply = (\<lambda>jid n. Inr (map_of [(''status'', PStr ''running'')])),
      clock = (\<lambda>n. of_nat n),
      download_reply = (\<lambda>f. None)\<rparr>"

text \<open>
  Job \<open>a\<close> completes at its second poll, job \<open>b\<close> has failed, job \<open>c\<close> completes at its
  first poll.
\<close>

definition snapshot_failed :: pydict where
  "snapshot_failed = map_of [(''status'', PStr ''failed''), (''error'', PStr ''node lost'')]"

definition env_batch :: env where
  "env_batch =
     \<lparr>status_reply = (\<lambda>jid n.
         if jid = ''b'' then Inr snapshot_failed
         else if jid = ''a'' \<and> n = 0 then Inr (map_of [(''status'', PStr ''running'')])
         else Inr (map_of [(''status'', PStr ''completed''), (''output_file_id'', PStr (''f-'' @ jid))])),
      clock = (\<lambda>n. of_nat n),
      download_reply = (\<lambda>f. None)\<rparr>"

definition job_a :: batch_job where
  "job_a = \<lparr>job_id = ''a'', job_input = ''a.mp4'', job_output = ''out/a_processed.mp4''\<rparr>"

definition job_b :: batch_job where
  "job_b = \<lparr>job_id = ''b'', job_input = ''b.mp4'', job_output = ''out/b_processed.mp4''\<rparr>"

definition job_c :: batch_job where
  "job_c = \<lparr>job_id = ''c'', job_input = ''c.mp4'', job_output = ''out/c_processed.mp4''\<rparr>"

text \<open>
  The client after the batch run over \<open>a\<close>, \<open>b\<close>, \<open>c\<close> in \<open>env_batch\<close>: three clock
  readings, two polls of \<open>a\<close>, one of \<open>b\<close>, none of \<open>c\<close>; the result of \<open>a\<close> downloaded
  and reported.
\<close>

definition world_after_a :: world where
  "world_after_a =
     \<lparr>ticks = 2, polled = (\<lambda>jid. 0)(''a'' := 2),
      downloaded = [(PStr ''f-a'', ''out/a_processed.mp4'')], reported = [(1, ''a.mp4'')]\<rparr>"

definition world_after_b :: world where
  "world_after_b =
     \<lparr>ticks = 3, polled = (\<lambda>jid. 0)(''a'' := 2, ''b'' := 1),
      downloaded = [(PStr ''f-a'', ''out/a_processed.mp4'')], reported = [(1, ''a.mp4'')]\<rparr>"

section \<open>Notions the properties are stated with\<close>

text \<open>
  The position of each kind of stage in the order of the source's blocks:
  upload, scale, deinterlace, tone map, frame rate, download, then the filters that run
  on the processor.
\<close>

fun stage_rank :: "stage \<Rightarrow> nat" where
  "stage_rank Upload = 0"
| "stage_rank (Scale w h accel) = 1"
| "stage_rank (Deinterlace accel) = 2"
| "stage_rank (ToneMap accel) = 3"
| "stage_rank (FrameRateConvert r) = 4"
| "stage_rank Download = 5"
| "stage_rank (ColorLUT p) = 6"
| "stage_rank (ColorCorrect kvs) = 7"
| "stage_rank (Sharpen u) = 8"
| "stage_rank (Grain g) = 9"
| "stage_rank (Letterbox a) = 10"
| "stage_rank (Vignette v) = 11"

text \<open>
  \<open>precedes P Q st\<close>: in the pipeline \<open>st\<close>, every stage of kind \<open>P\<close> stands before every
  stage of kind \<open>Q\<close>.
\<close>

definition precedes :: "(stage \<Rightarrow> bool) \<Rightarrow> (stage \<Rightarrow> bool) \<Rightarrow> stage list \<Rightarrow> bool" where
  "precedes P Q st = (\<forall>i < length st. \<forall>j < length st. P (st ! i) \<and> Q (st ! j) \<longrightarrow> i < j)"

text \<open>The kinds of the tail, in the order the specification gives them.\<close>

definition cpu_tail_order :: "(stage \<Rightarrow> bool) list" where
  "cpu_tail_order = [is_ColorLUT, is_ColorCorrect, is_Sharpen, is_Grain, is_Letterbox, is_Vignette]"

text \<open>A stage that runs on the processor only: one of the six kinds of the tail.\<close>

definition cpu_only :: "stage \<Rightarrow> bool" where
  "cpu_only s = (\<exists>P \<in> set cpu_tail_order. P s)"

text \<open>A stage for which the accelerated filter was chosen.\<close>

fun accelerated :: "stage \<Rightarrow> bool" where
  "accelerated (Scale w h accel) = accel"
| "accelerated (Deinterlace accel) = accel"
| "accelerated (ToneMap accel) = accel"
| "accelerated s = False"






subsection \<open>The inputs of the scenarios\<close>

definition caps_accel :: GPUPipeline where
  "caps_accel = \<lparr>ffmpeg_path = ''ffmpeg'', has_nvenc = True, has_cuda = True\<rparr>"

definition caps_software :: GPUPipeline where
  "caps_software = \<lparr>ffmpeg_path = ''ffmpeg'', has_nvenc = False, has_cuda = False\<rparr>"

definition preset_scenario :: pydict where
  "preset_scenario = map_of
     [(''encoder'', PStr ''h264_nvenc''),
      (''scale'', PTuple [PInt 1920, PInt 1080]),
      (''deinterlace'', PBool True)]"

definition preset_grain_only :: pydict where
  "preset_grain_only = map_of [(''grain'', PInt 8)]"

definition pipeline_all_stages :: "stage list" where
  "pipeline_all_stages =
     [Upload, Scale (PInt 1280) (PInt 720) True, Deinterlace True, ToneMap True,
      FrameRateConvert (PInt 30), Download, ColorLUT (PStr ''grade.cube''),
      ColorCorrect [(''contrast'', PFloat 11 1)], Sharpen (PStr ''3:3:0.8''), Grain (PInt 8),
      Letterbox (PFloat 239 2), Vignette (PFloat 4 1)]"

definition preset_all_stages :: pydict where
  "preset_all_stages = map_of
     [(''hwaccel'', PBool False),
      (''scale'', PTuple [PInt 1280, PInt 720]),
      (''deinterlace'', PBool True),
      (''tonemap'', PBool True),
      (''fps'', PInt 30),
      (''eq'', PDict [(''contrast'', PFloat 11 1)]),
      (''unsharp'', PStr ''3:3:0.8''),
      (''grain'', PInt 8),
      (''letterbox'', PFloat 239 2),
      (''vignette'', PFloat 4 1)]"

section \<open>Properties of the filter-chain compiler\<close>

lemmas pipeline_defs = filter_stages_def filters_in_order_def scale_stage_def eq_stage_def
  use_cuda_def dict_get_def needs_cpu_filters_def caps_accel_def caps_software_def
  preset_scenario_def preset_grain_only_def preset_all_stages_def

subsection \<open>The shape of a compiled pipeline\<close>

lemma scale_stage_Inr:
  "scale_stage cuda preset = Inr sc \<Longrightarrow>
     (preset ''scale'' = None \<and> sc = []) \<or>
     (\<exists>v w h. preset ''scale'' = Some v \<and> unpack2 v = Inr (w, h) \<and> sc = [Scale w h cuda])"
  by (auto simp: scale_stage_def split: option.splits sum.splits)

lemma eq_stage_Inr:
  "eq_stage preset = Inr eq \<Longrightarrow>
     (\<not> truthy (dict_get preset ''eq'' PNone) \<and> eq = []) \<or>
     (\<exists>kvs. dict_get preset ''eq'' PNone = PDict kvs \<and> kvs \<noteq> [] \<and> eq = [ColorCorrect kvs])"
  by (auto simp: eq_stage_def split: if_splits pyval.splits)

lemma filter_stages_Inr:
  assumes "filter_stages self preset lut_path = Inr st"
  obtains sc eq where
    "scale_stage (use_cuda self preset) preset = Inr sc"
    "eq_stage preset = Inr eq"
    "st = filters_in_order (use_cuda self preset) preset lut_path sc eq"
proof (cases "scale_stage (use_cuda self preset) preset")
  case (Inl e)
  with assms show ?thesis by (simp add: filter_stages_def)
next
  case sc: (Inr sc)
  show ?thesis
  proof (cases "eq_stage preset")
    case (Inl e)
    with assms sc show ?thesis by (simp add: filter_stages_def)
  next
    case (Inr eq)
    with assms sc show ?thesis
      unfolding filter_stages_def Let_def by (intro that[of sc eq]) (simp_all only: sum.case sum.inject)
  qed
qed

subsection \<open>The order of the stages\<close>

lemma rank_last:
  assumes "seg = [] \<or> (\<exists>s. seg = [s] \<and> stage_rank s = r)"
  shows "sorted_wrt (<) (map stage_rank seg) \<and> (\<forall>x \<in> set seg. r \<le> stage_rank x)"
  using assms by auto

lemma rank_step:
  assumes "seg = [] \<or> (\<exists>s. seg = [s] \<and> stage_rank s = r)"
    and "sorted_wrt (<) (map stage_rank xs) \<and> (\<forall>x \<in> set xs. Suc r \<le> stage_rank x)"
  shows "sorted_wrt (<) (map stage_rank (seg @ xs)) \<and> (\<forall>x \<in> set (seg @ xs). r \<le> stage_rank x)"
  using assms by (auto simp: Suc_le_eq less_imp_le)

text \<open>
  The ranks along a compiled pipeline increase strictly: each block of the source
  appends at most one stage, and the blocks run in the order of the ranks.
\<close>

lemma filter_stages_ranks_sorted:
  assumes "filter_stages self preset lut_path = Inr st"
  shows "sorted_wrt (<) (map stage_rank st)"
proof -
  from assms obtain sc eq where sc: "scale_stage (use_cuda self preset) preset = Inr sc"
    and eq: "eq_stage preset = Inr eq"
    and st: "st = filters_in_order (use_cuda self preset) preset lut_path sc eq"
    by (rule filter_stages_Inr)
  have s1: "sc = [] \<or> (\<exists>s. sc = [s] \<and> stage_rank s = Suc 0)"
    using scale_stage_Inr[OF sc] by auto
  have s7: "eq = [] \<or> (\<exists>s. eq = [s] \<and> stage_rank s = Suc (Suc (Suc (Suc (Suc (Suc (Suc 0)))))))"
    using eq_stage_Inr[OF eq] by auto
  have "sorted_wrt (<) (map stage_rank st) \<and> (\<forall>x \<in> set st. 0 \<le> stage_rank x)"
    unfolding st filters_in_order_def
    apply (intro rank_step rank_last s1 s7)
    apply (simp_all split: option.splits)
    done
  then show ?thesis by simp
qed

lemma sorted_ranks_index:
  assumes "sorted_wrt (<) (map stage_rank st)" "i < length st" "j < length st"
    and "stage_rank (st ! i) < stage_rank (st ! j)"
  shows "i < j"
proof (rule ccontr)
  assume "\<not> i < j"
  then have "j = i \<or> j < i" by auto
  then show False
  proof
    assume "j = i"
    with assms(4) show False by simp
  next
    assume "j < i"
    with assms(1,2) have "stage_rank (st ! j) < stage_rank (st ! i)"
      by (simp add: sorted_wrt_iff_nth_less)
    with assms(4) show False by simp
  qed
qed

lemma precedes_by_rank:
  assumes "sorted_wrt (<) (map stage_rank st)"
    and "\<And>s. P s \<Longrightarrow> stage_rank s = a" and "\<And>s. Q s \<Longrightarrow> stage_rank s = b" and "a < b"
  shows "precedes P Q st"
  unfolding precedes_def using sorted_ranks_index[OF assms(1)] assms(2-4) by fastforce

lemma cpu_tail_order_rank:
  "k < length cpu_tail_order \<Longrightarrow> (cpu_tail_order ! k) s \<Longrightarrow> stage_rank s = 6 + k"
  by (cases s) (auto simp: cpu_tail_order_def less_Suc_eq numeral_eq_Suc nth_Cons')

text \<open>
  Claim C6. Every pipeline the compiler returns, for any preset, lookup table and
  capability flags, keeps the mandated order: a scale stage stands before a deinterlace
  and before a tone-map stage, a deinterlace stage before a tone-map stage, a tone-map
  stage before a frame-rate stage, and the stages of the tail follow the order color
  lookup table, color correction, sharpen, grain, letterbox, vignette (any two of them
  stand in that order).
\<close>

theorem stage_order:
  assumes "filter_stages self preset lut_path = Inr st"
  shows "precedes is_Scale is_Deinterlace st \<and> precedes is_Scale is_ToneMap st \<and>
         precedes is_Deinterlace is_ToneMap st \<and> precedes is_ToneMap is_FrameRateConvert st \<and>
         (\<forall>a b. a < b \<and> b < length cpu_tail_order \<longrightarrow>
                precedes (cpu_tail_order ! a) (cpu_tail_order ! b) st)"
proof -
  note srt = filter_stages_ranks_sorted[OF assms]
  have 1: "precedes is_Scale is_Deinterlace st"
    by (rule precedes_by_rank[OF srt, of _ 1 _ 2]) (auto simp: is_Scale_def is_Deinterlace_def)
  have 2: "precedes is_Scale is_ToneMap st"
    by (rule precedes_by_rank[OF srt, of _ 1 _ 3]) (auto simp: is_Scale_def is_ToneMap_def)
  have 3: "precedes is_Deinterlace is_ToneMap st"
    by (rule precedes_by_rank[OF srt, of _ 2 _ 3]) (auto simp: is_Deinterlace_def is_ToneMap_def)
  have 4: "precedes is_ToneMap is_FrameRateConvert st"
    by (rule precedes_by_rank[OF srt, of _ 3 _ 4]) (auto simp: is_ToneMap_def is_FrameRateConvert_def)
  have 5: "precedes (cpu_tail_order ! a) (cpu_tail_order ! b) st"
    if "a < b" "b < length cpu_tail_order" for a b
    by (rule precedes_by_rank[OF srt, of _ "6 + a" _ "6 + b"])
       (use that in \<open>auto simp: cpu_tail_order_rank\<close>)
  from 1 2 3 4 5 show ?thesis by blast
qed

text \<open>
  The order on a pipeline that holds every kind of stage: a preset with all twelve
  blocks active, accelerated filters, and a lookup table.
\<close>

theorem stage_order_witness:
  "filter_stages caps_accel preset_all_stages (PStr ''grade.cube'') = Inr pipeline_all_stages \<and>
   precedes is_Scale is_Deinterlace pipeline_all_stages \<and>
   precedes is_Scale is_ToneMap pipeline_all_stages \<and>
   precedes is_Deinterlace is_ToneMap pipeline_all_stages \<and>
   precedes is_ToneMap is_FrameRateConvert pipeline_all_stages \<and>
   precedes (cpu_tail_order ! 0) (cpu_tail_order ! 5) pipeline_all_stages \<and>
   precedes (cpu_tail_order ! 2) (cpu_tail_order ! 3) pipeline_all_stages"
proof -
  have e: "filter_stages caps_accel preset_all_stages (PStr ''grade.cube'') = Inr pipeline_all_stages"
    by (simp add: pipeline_defs pipeline_all_stages_def)
  have l: "(0::nat) < 5 \<and> 5 < length cpu_tail_order" "(2::nat) < 3 \<and> 3 < length cpu_tail_order"
    by (simp_all add: cpu_tail_order_def)
  from stage_order[OF e] l e show ?thesis by blast
qed

subsection \<open>Upload and download\<close>

lemma transfer_stages:
  assumes "filter_stages self preset lut_path = Inr st"
  shows "Upload \<in> set st \<longleftrightarrow>
           use_cuda self preset \<and> \<not> truthy (dict_get preset ''hwaccel'' (PBool True))"
    and "Download \<in> set st \<longleftrightarrow> use_cuda self preset \<and> needs_cpu_filters preset lut_path"
    and "\<forall>s \<in> set st. accelerated s \<longrightarrow> use_cuda self preset"
proof -
  from assms obtain sc eq where sc: "scale_stage (use_cuda self preset) preset = Inr sc"
    and eq: "eq_stage preset = Inr eq"
    and st: "st = filters_in_order (use_cuda self preset) preset lut_path sc eq"
    by (rule filter_stages_Inr)
  have s1: "sc = [] \<or> (\<exists>w h. sc = [Scale w h (use_cuda self preset)])"
    using scale_stage_Inr[OF sc] by auto
  have s7: "eq = [] \<or> (\<exists>kvs. eq = [ColorCorrect kvs])"
    using eq_stage_Inr[OF eq] by auto
  show "Upload \<in> set st \<longleftrightarrow>
          use_cuda self preset \<and> \<not> truthy (dict_get preset ''hwaccel'' (PBool True))"
    unfolding st filters_in_order_def using s1 s7 by (auto split: option.splits)
  show "Download \<in> set st \<longleftrightarrow> use_cuda self preset \<and> needs_cpu_filters preset lut_path"
    unfolding st filters_in_order_def using s1 s7 by (auto split: option.splits)
  show "\<forall>s \<in> set st. accelerated s \<longrightarrow> use_cuda self preset"
    unfolding st filters_in_order_def using s1 s7 by (auto split: option.splits)
qed

text \<open>
  Claim C1, as the specification states it: the scenario's preset compiles, with both
  capabilities, to an upload followed by the accelerated scale and deinterlace stages.
  The code does not: the preset leaves \<open>hwaccel\<close> at its default, true, so the frame is
  already on the accelerator and no upload is emitted.
\<close>

theorem scenario_accel_no_upload:
  "filter_stages caps_accel preset_scenario PNone
     \<noteq> Inr [Upload, Scale (PInt 1920) (PInt 1080) True, Deinterlace True]"
  by (simp add: pipeline_defs)

text \<open>
  Claim C1, amended: the scenario's preset compiles, with both capabilities, to exactly
  the accelerated scale stage followed by the accelerated deinterlace stage; the same
  preset with \<open>hwaccel\<close> set to false compiles to an upload followed by these two.
\<close>

theorem scenario_accel_pipeline:
  "filter_stages caps_accel preset_scenario PNone
     = Inr [Scale (PInt 1920) (PInt 1080) True, Deinterlace True] \<and>
   filter_stages caps_accel (preset_scenario(''hwaccel'' \<mapsto> PBool False)) PNone
     = Inr [Upload, Scale (PInt 1920) (PInt 1080) True, Deinterlace True]"
  by (simp add: pipeline_defs)

text \<open>
  Claim C7. When the accelerated filters are unavailable, or the preset disables them
  (\<open>use_cuda\<close> false), a compiled pipeline has no upload and no download stage and none
  of its stages is the accelerated one; and the scenario's preset compiles, with no
  capability, to exactly the software scale stage followed by the software deinterlace
  stage.
\<close>

theorem software_path:
  "((\<not> has_cuda self \<or> \<not> truthy (dict_get preset ''use_cuda'' (PBool True))) \<and>
     filter_stages self preset lut_path = Inr st
     \<longrightarrow> Upload \<notin> set st \<and> Download \<notin> set st \<and> (\<forall>s \<in> set st. \<not> accelerated s)) \<and>
   filter_stages caps_software preset_scenario PNone
     = Inr [Scale (PInt 1920) (PInt 1080) False, Deinterlace False]"
proof (intro conjI impI)
  assume a: "(\<not> has_cuda self \<or> \<not> truthy (dict_get preset ''use_cuda'' (PBool True))) \<and>
     filter_stages self preset lut_path = Inr st"
  then have nc: "\<not> use_cuda self preset" by (auto simp: use_cuda_def)
  from a have fs: "filter_stages self preset lut_path = Inr st" by simp
  from transfer_stages(1)[OF fs] nc show "Upload \<notin> set st" by simp
  from transfer_stages(2)[OF fs] nc show "Download \<notin> set st" by simp
  from transfer_stages(3)[OF fs] nc show "\<forall>s \<in> set st. \<not> accelerated s" by blast
next
  show "filter_stages caps_software preset_scenario PNone
     = Inr [Scale (PInt 1920) (PInt 1080) False, Deinterlace False]"
    by (simp add: pipeline_defs)
qed

text \<open>
  The software path on two inputs: the scenario without capabilities, and the preset
  with every block active on a machine with both capabilities but \<open>use_cuda\<close> false.
\<close>

theorem software_path_witness:
  "\<not> has_cuda caps_software \<and>
   filter_stages caps_software preset_scenario PNone
     = Inr [Scale (PInt 1920) (PInt 1080) False, Deinterlace False] \<and>
   Upload \<notin> set [Scale (PInt 1920) (PInt 1080) False, Deinterlace False] \<and>
   Download \<notin> set [Scale (PInt 1920) (PInt 1080) False, Deinterlace False] \<and>
   \<not> accelerated (Scale (PInt 1920) (PInt 1080) False) \<and> \<not> accelerated (Deinterlace False) \<and>
   \<not> truthy (dict_get (preset_scenario(''use_cuda'' \<mapsto> PBool False)) ''use_cuda'' (PBool True)) \<and>
   filter_stages caps_accel (preset_scenario(''use_cuda'' \<mapsto> PBool False)) PNone
     = Inr [Scale (PInt 1920) (PInt 1080) False, Deinterlace False]"
proof -
  have h: "\<not> has_cuda caps_software" by (simp add: caps_software_def)
  have h2: "\<not> truthy (dict_get (preset_scenario(''use_cuda'' \<mapsto> PBool False)) ''use_cuda'' (PBool True))"
    by (simp add: dict_get_def)
  have e2: "filter_stages caps_accel (preset_scenario(''use_cuda'' \<mapsto> PBool False)) PNone
     = Inr [Scale (PInt 1920) (PInt 1080) False, Deinterlace False]"
    by (simp add: pipeline_defs)
  have e: "filter_stages caps_software preset_scenario PNone
     = Inr [Scale (PInt 1920) (PInt 1080) False, Deinterlace False]"
    using software_path[of caps_software preset_scenario PNone "[]"] by blast
  from software_path[of caps_software preset_scenario PNone
        "[Scale (PInt 1920) (PInt 1080) False, Deinterlace False]"] h e
  have "Upload \<notin> set [Scale (PInt 1920) (PInt 1080) False, Deinterlace False] \<and>
        Download \<notin> set [Scale (PInt 1920) (PInt 1080) False, Deinterlace False] \<and>
        (\<forall>s \<in> set [Scale (PInt 1920) (PInt 1080) False, Deinterlace False]. \<not> accelerated s)"
    by blast
  with h h2 e e2 show ?thesis by simp
qed

subsection \<open>The download before the tail\<close>

lemma cpu_only_iff:
  "cpu_only s \<longleftrightarrow>
     is_ColorLUT s \<or> is_ColorCorrect s \<or> is_Sharpen s \<or> is_Grain s \<or> is_Letterbox s \<or> is_Vignette s"
  by (simp add: cpu_only_def cpu_tail_order_def)

text \<open>
  What the code does for the three kinds it tests (\<open>needs_cpu_filters\<close>: a lookup table,
  a color correction, a sharpening): with accelerated filters in use, the pipeline is
  some stages that are neither a download nor of the tail, then one download, then a
  tail that starts with a stage of the tail and holds no upload and no download.
\<close>

lemma download_before_cpu_tail:
  assumes fs: "filter_stages self preset lut_path = Inr st"
    and cuda: "use_cuda self preset" and need: "needs_cpu_filters preset lut_path"
  shows "\<exists>pre tl. st = pre @ Download # tl \<and> (\<forall>s \<in> set pre. \<not> cpu_only s) \<and>
           Download \<notin> set pre \<and> tl \<noteq> [] \<and> cpu_only (hd tl) \<and>
           Download \<notin> set tl \<and> Upload \<notin> set tl"
proof -
  from fs obtain sc eq where sc: "scale_stage (use_cuda self preset) preset = Inr sc"
    and eq: "eq_stage preset = Inr eq"
    and st: "st = filters_in_order (use_cuda self preset) preset lut_path sc eq"
    by (rule filter_stages_Inr)
  define pre where "pre =
      (if use_cuda self preset \<and> \<not> truthy (dict_get preset ''hwaccel'' (PBool True))
       then [Upload] else [])
      @ sc
      @ (if truthy (dict_get preset ''deinterlace'' PNone)
         then [Deinterlace (use_cuda self preset)] else [])
      @ (if truthy (dict_get preset ''tonemap'' PNone)
         then [ToneMap (use_cuda self preset)] else [])
      @ (case preset ''fps'' of None \<Rightarrow> [] | Some r \<Rightarrow> [FrameRateConvert r])"
  define rest where "rest =
      (if truthy (dict_get preset ''unsharp'' PNone)
       then [Sharpen (dict_get preset ''unsharp'' PNone)] else [])
      @ (if truthy (dict_get preset ''grain'' PNone)
         then [Grain (dict_get preset ''grain'' PNone)] else [])
      @ (if truthy (dict_get preset ''letterbox'' PNone)
         then [Letterbox (dict_get preset ''letterbox'' PNone)] else [])
      @ (if truthy (dict_get preset ''vignette'' PNone)
         then [Vignette (dict_get preset ''vignette'' PNone)] else [])"
  define tl where "tl = (if truthy lut_path then [ColorLUT lut_path] else []) @ eq @ rest"
  have s1: "sc = [] \<or> (\<exists>w h. sc = [Scale w h (use_cuda self preset)])"
    using scale_stage_Inr[OF sc] by auto
  have s7: "(\<not> truthy (dict_get preset ''eq'' PNone) \<and> eq = []) \<or> (\<exists>kvs. eq = [ColorCorrect kvs])"
    using eq_stage_Inr[OF eq] by auto
  have split: "st = pre @ Download # tl"
    unfolding st filters_in_order_def pre_def tl_def rest_def using cuda need by simp
  have pre1: "\<forall>s \<in> set pre. \<not> cpu_only s" and pre2: "Download \<notin> set pre"
    unfolding pre_def cpu_only_iff using s1 by (auto split: option.splits)
  have rest1: "Download \<notin> set rest \<and> Upload \<notin> set rest"
    unfolding rest_def by simp
  have rest2: "rest \<noteq> [] \<longrightarrow> cpu_only (hd rest)"
    unfolding rest_def cpu_only_iff by simp
  have rest3: "truthy (dict_get preset ''unsharp'' PNone) \<longrightarrow> rest \<noteq> []"
    unfolding rest_def by simp
  have tl1: "Download \<notin> set tl \<and> Upload \<notin> set tl"
    unfolding tl_def using s7 rest1 by auto
  have tl2: "tl \<noteq> [] \<and> cpu_only (hd tl)"
    unfolding tl_def using s7 rest2 rest3 need
    by (auto simp: needs_cpu_filters_def cpu_only_iff)
  from split pre1 pre2 tl1 tl2 show ?thesis by blast
qed

text \<open>
  Claim C2 requires the download for every preset that requests a stage of the tail while
  accelerated filters are in use. The code tests three of the six kinds only: for a
  preset that requests grain alone, with accelerated filters in use, it returns the
  grain stage with no download before it.
\<close>

theorem grain_without_download:
  "use_cuda caps_accel preset_grain_only \<and> cpu_only (Grain (PInt 8)) \<and>
   filter_stages caps_accel preset_grain_only PNone = Inr [Grain (PInt 8)]"
  by (simp add: pipeline_defs cpu_only_iff)

section \<open>Properties of the command compiler\<close>

lemmas command_defs = build_gpu_command_def build_filter_chain_def video_args_def audio_args_def
  output_args_def decode_args_def filter_args_def select_encoder_def nvenc_preset_get_def
  NVENC_PRESETS_def show_int_def show_nat.simps digit_char_def

subsection \<open>The shape of an invocation descriptor\<close>

lemma build_gpu_command_Inr:
  assumes "build_gpu_command fmt self inp outp preset lut_path = Inr cmd"
  obtains filters video where "build_filter_chain fmt self preset lut_path = Inr filters"
    "video_args fmt self preset = Inr video"
    "cmd = decode_args self preset @ [PStr ''-i'', PStr inp] @ filter_args filters
             @ video @ audio_args fmt preset @ output_args preset outp"
  using assms unfolding build_gpu_command_def by (auto split: sum.splits)

lemma video_args_Inr:
  assumes "video_args fmt self preset = Inr video"
  obtains opts where "video = [PStr ''-c:v'', select_encoder self preset] @ opts"
  using assms unfolding video_args_def Let_def by (auto split: sum.splits bool.splits)

subsection \<open>Encoder selection\<close>

text \<open>
  Claim C4, as the specification states it: when the probe reports no accelerated
  encoder, the selected video encoder is a software one. The code does not: for the
  catalog's default preset, which names \<open>h264_nvenc\<close>, a machine without the accelerated
  encoder still gets \<open>-c:v h264_nvenc\<close> and the options of the accelerated encoder.
\<close>

theorem default_preset_keeps_nvenc:
  "\<not> has_nvenc caps_software \<and>
   build_gpu_command py_str caps_software ''input.mp4'' ''output.mp4'' preset_default PNone
     = Inr [PStr ''ffmpeg'', PStr ''-hide_banner'', PStr ''-y'',
            PStr ''-i'', PStr ''input.mp4'',
            PStr ''-c:v'', PStr ''h264_nvenc'',
            PStr ''-preset'', PStr ''p4'', PStr ''-rc'', PStr ''vbr'', PStr ''-cq'', PStr ''23'',
            PStr ''-b:v'', PStr ''0'', PStr ''-maxrate'', PStr ''50M'', PStr ''-bufsize'', PStr ''100M'',
            PStr ''-bf'', PStr ''3'',
            PStr ''-c:a'', PStr ''aac'', PStr ''-b:a'', PStr ''128k'', PStr ''-ar'', PStr ''48000'',
            PStr ''-movflags'', PStr ''+faststart'', PStr ''output.mp4'']"
  by (simp add: pipeline_defs command_defs preset_default_def)

text \<open>
  Claim C4, amended: the descriptor's video encoder, the argument after \<open>-c:v\<close>, is the
  encoder the preset names, whatever the probe reports; when the preset names none, it
  is \<open>h264_nvenc\<close> if the probe reports the accelerated encoder and the software encoder
  \<open>libx264\<close> otherwise.
\<close>

theorem encoder_selection:
  "(build_gpu_command fmt self inp outp preset lut_path = Inr cmd \<longrightarrow>
      (\<exists>filters opts. cmd = decode_args self preset @ [PStr ''-i'', PStr inp] @ filter_args filters
           @ [PStr ''-c:v'', select_encoder self preset] @ opts
           @ audio_args fmt preset @ output_args preset outp)) \<and>
   (preset ''encoder'' = None \<longrightarrow>
      select_encoder self preset = PStr (if has_nvenc self then ''h264_nvenc'' else ''libx264'')) \<and>
   (\<forall>enc. preset ''encoder'' = Some enc \<longrightarrow> select_encoder self preset = enc)"
proof (intro conjI impI allI)
  assume "build_gpu_command fmt self inp outp preset lut_path = Inr cmd"
  then obtain filters video where v: "video_args fmt self preset = Inr video"
    and c: "cmd = decode_args self preset @ [PStr ''-i'', PStr inp] @ filter_args filters
             @ video @ audio_args fmt preset @ output_args preset outp"
    by (rule build_gpu_command_Inr)
  from v obtain opts where "video = [PStr ''-c:v'', select_encoder self preset] @ opts"
    by (rule video_args_Inr)
  with c show "\<exists>filters opts. cmd = decode_args self preset @ [PStr ''-i'', PStr inp] @ filter_args filters
           @ [PStr ''-c:v'', select_encoder self preset] @ opts
           @ audio_args fmt preset @ output_args preset outp"
    by auto
next
  assume "preset ''encoder'' = None"
  then show "select_encoder self preset = PStr (if has_nvenc self then ''h264_nvenc'' else ''libx264'')"
    by (simp add: select_encoder_def dict_get_def)
next
  fix enc assume "preset ''encoder'' = Some enc"
  then show "select_encoder self preset = enc"
    by (simp add: select_encoder_def dict_get_def)
qed

text \<open>
  The selection on the scenario's preset, which names its encoder, and on the empty
  preset, with and without the accelerated encoder; and the descriptor of the empty
  preset without it.
\<close>

theorem encoder_selection_witness:
  "preset_scenario ''encoder'' = Some (PStr ''h264_nvenc'') \<and>
   select_encoder caps_software preset_scenario = PStr ''h264_nvenc'' \<and>
   (Map.empty :: pydict) ''encoder'' = None \<and>
   select_encoder caps_software Map.empty = PStr ''libx264'' \<and>
   select_encoder caps_accel Map.empty = PStr ''h264_nvenc'' \<and>
   build_gpu_command py_str caps_software ''input.mp4'' ''output.mp4'' Map.empty PNone
     = Inr [PStr ''ffmpeg'', PStr ''-hide_banner'', PStr ''-y'', PStr ''-i'', PStr ''input.mp4'',
            PStr ''-c:v'', PStr ''libx264'', PStr ''-preset'', PStr ''medium'', PStr ''-crf'', PStr ''23'',
            PStr ''-c:a'', PStr ''aac'', PStr ''-b:a'', PStr ''128k'', PStr ''-ar'', PStr ''48000'',
            PStr ''-movflags'', PStr ''+faststart'', PStr ''output.mp4'']"
proof -
  have a: "preset_scenario ''encoder'' = Some (PStr ''h264_nvenc'')"
    by (simp add: preset_scenario_def)
  have b: "(Map.empty :: pydict) ''encoder'' = None" by simp
  have c: "build_gpu_command py_str caps_software ''input.mp4'' ''output.mp4'' Map.empty PNone
     = Inr [PStr ''ffmpeg'', PStr ''-hide_banner'', PStr ''-y'', PStr ''-i'', PStr ''input.mp4'',
            PStr ''-c:v'', PStr ''libx264'', PStr ''-preset'', PStr ''medium'', PStr ''-crf'', PStr ''23'',
            PStr ''-c:a'', PStr ''aac'', PStr ''-b:a'', PStr ''128k'', PStr ''-ar'', PStr ''48000'',
            PStr ''-movflags'', PStr ''+faststart'', PStr ''output.mp4'']"
    by (simp add: pipeline_defs command_defs)
  have n: "\<not> has_nvenc caps_software" "has_nvenc caps_accel"
    by (simp_all add: caps_software_def caps_accel_def)
  from encoder_selection[of py_str caps_software "''input.mp4''" "''output.mp4''" preset_scenario PNone "[]"] a
  have 1: "select_encoder caps_software preset_scenario = PStr ''h264_nvenc''" by blast
  from encoder_selection[of py_str caps_software "''input.mp4''" "''output.mp4''" Map.empty PNone "[]"] b n
  have 2: "select_encoder caps_software Map.empty = PStr ''libx264''" by simp
  from encoder_selection[of py_str caps_accel "''input.mp4''" "''output.mp4''" Map.empty PNone "[]"] b n
  have 3: "select_encoder caps_accel Map.empty = PStr ''h264_nvenc''" by simp
  from a b c 1 2 3 show ?thesis by blast
qed

subsection \<open>No exception on a typed preset\<close>





text \<open>
  The typing matters: a value of another type in one of the four fields raises. A
  resolution that is \<open>None\<close> is unpacked and raises TypeError, where a missing one is
  skipped.
\<close>

lemma scale_None_raises:
  "build_gpu_command fmt self inp outp [''scale'' \<mapsto> PNone] lut_path = Inl TypeError"
  by (simp add: build_gpu_command_def build_filter_chain_def filter_stages_def scale_stage_def)



subsection \<open>The filter argument\<close>

lemma render_nonempty: "render fmt s \<noteq> []"
  by (cases s) auto

lemma join_nonempty: "xs \<noteq> [] \<Longrightarrow> hd xs \<noteq> [] \<Longrightarrow> join sep xs \<noteq> []"
  by (cases "(sep, xs)" rule: join.cases) auto

lemma chain_empty_iff:
  assumes "build_filter_chain fmt self preset lut_path = Inr chain"
  shows "chain = [] \<longleftrightarrow> filter_stages self preset lut_path = Inr []"
proof (cases "filter_stages self preset lut_path")
  case (Inl e)
  with assms show ?thesis by (simp add: build_filter_chain_def)
next
  case (Inr st)
  show ?thesis
  proof (cases "st = []")
    case True
    with Inr assms show ?thesis by (simp add: build_filter_chain_def)
  next
    case False
    then have "join '','' (map (render fmt) st) \<noteq> []"
      by (intro join_nonempty) (simp_all add: hd_map render_nonempty)
    with False Inr assms show ?thesis by (auto simp: build_filter_chain_def)
  qed
qed

text \<open>
  Claim C10. The compiled filter chain is the empty string exactly when the pipeline has
  no stage. Then the descriptor has no filter argument: the video encoding block follows
  the input path directly. When the chain is not empty, \<open>-vf\<close> and the chain, which is
  then no empty string, stand between them.
\<close>

theorem no_filter_argument:
  assumes "build_filter_chain fmt self preset lut_path = Inr chain"
    and "video_args fmt self preset = Inr video"
  shows "(chain = [] \<longleftrightarrow> filter_stages self preset lut_path = Inr []) \<and>
         build_gpu_command fmt self inp outp preset lut_path =
           Inr (decode_args self preset @ [PStr ''-i'', PStr inp]
                @ (if chain = [] then [] else [PStr ''-vf'', PStr chain])
                @ video @ audio_args fmt preset @ output_args preset outp)"
  using chain_empty_iff[OF assms(1)] assms
  by (simp add: build_gpu_command_def filter_args_def)

text \<open>The catalog's default preset requests no stage: its descriptor, argument by argument.\<close>

theorem no_filter_argument_witness:
  "build_filter_chain py_str caps_accel preset_default PNone = Inr [] \<and>
   filter_stages caps_accel preset_default PNone = Inr [] \<and>
   build_gpu_command py_str caps_accel ''input.mp4'' ''output.mp4'' preset_default PNone
     = Inr [PStr ''ffmpeg'', PStr ''-hide_banner'', PStr ''-y'',
            PStr ''-hwaccel'', PStr ''cuda'', PStr ''-hwaccel_output_format'', PStr ''cuda'',
            PStr ''-i'', PStr ''input.mp4'',
            PStr ''-c:v'', PStr ''h264_nvenc'',
            PStr ''-preset'', PStr ''p4'', PStr ''-rc'', PStr ''vbr'', PStr ''-cq'', PStr ''23'',
            PStr ''-b:v'', PStr ''0'', PStr ''-maxrate'', PStr ''50M'', PStr ''-bufsize'', PStr ''100M'',
            PStr ''-bf'', PStr ''3'',
            PStr ''-c:a'', PStr ''aac'', PStr ''-b:a'', PStr ''128k'', PStr ''-ar'', PStr ''48000'',
            PStr ''-movflags'', PStr ''+faststart'', PStr ''output.mp4'']"
proof -
  have c: "build_filter_chain py_str caps_accel preset_default PNone = Inr []"
    by (simp add: pipeline_defs build_filter_chain_def preset_default_def)
  have v: "video_args py_str caps_accel preset_default =
     Inr [PStr ''-c:v'', PStr ''h264_nvenc'',
            PStr ''-preset'', PStr ''p4'', PStr ''-rc'', PStr ''vbr'', PStr ''-cq'', PStr ''23'',
            PStr ''-b:v'', PStr ''0'', PStr ''-maxrate'', PStr ''50M'', PStr ''-bufsize'', PStr ''100M'',
            PStr ''-bf'', PStr ''3'']"
    by (simp add: pipeline_defs command_defs preset_default_def)
  have r: "decode_args caps_accel preset_default @ [PStr ''-i'', PStr ''input.mp4'']
             @ [PStr ''-c:v'', PStr ''h264_nvenc'',
            PStr ''-preset'', PStr ''p4'', PStr ''-rc'', PStr ''vbr'', PStr ''-cq'', PStr ''23'',
            PStr ''-b:v'', PStr ''0'', PStr ''-maxrate'', PStr ''50M'', PStr ''-bufsize'', PStr ''100M'',
            PStr ''-bf'', PStr ''3'']
             @ audio_args py_str preset_default @ output_args preset_default ''output.mp4''
      = [PStr ''ffmpeg'', PStr ''-hide_banner'', PStr ''-y'',
            PStr ''-hwaccel'', PStr ''cuda'', PStr ''-hwaccel_output_format'', PStr ''cuda'',
            PStr ''-i'', PStr ''input.mp4'',
            PStr ''-c:v'', PStr ''h264_nvenc'',
            PStr ''-preset'', PStr ''p4'', PStr ''-rc'', PStr ''vbr'', PStr ''-cq'', PStr ''23'',
            PStr ''-b:v'', PStr ''0'', PStr ''-maxrate'', PStr ''50M'', PStr ''-bufsize'', PStr ''100M'',
            PStr ''-bf'', PStr ''3'',
            PStr ''-c:a'', PStr ''aac'', PStr ''-b:a'', PStr ''128k'', PStr ''-ar'', PStr ''48000'',
            PStr ''-movflags'', PStr ''+faststart'', PStr ''output.mp4'']"
    by (simp add: pipeline_defs command_defs preset_default_def)
  from no_filter_argument[OF c v, of "''input.mp4''" "''output.mp4''"] c r
  show ?thesis by simp
qed

section \<open>Properties of the preset catalog\<close>

lemma PRESETS_default: "PRESETS ''default'' = Some preset_default"
  by (simp add: PRESETS_def)

text \<open>
  Claim C9. \<open>get_preset\<close> returns a preset for every name, and for a name that is not in
  the catalog it returns the catalog's \<open>default\<close> preset, which is also what it returns
  for the name \<open>default\<close>.
\<close>

theorem get_preset_fallback:
  "(\<exists>p. get_preset name = Inr p) \<and>
   (name \<notin> dom PRESETS \<longrightarrow>
      get_preset name = Inr preset_default \<and> get_preset name = get_preset ''default'')"
  by (auto simp: get_preset_def PRESETS_default split: option.splits)

text \<open>The name the repository's test uses.\<close>

theorem get_preset_fallback_witness:
  "''nonexistent'' \<notin> dom PRESETS \<and>
   get_preset ''nonexistent'' = Inr preset_default \<and>
   get_preset ''nonexistent'' = get_preset ''default''"
proof -
  have "PRESETS ''nonexistent'' = None" by (simp add: PRESETS_def)
  then have d: "''nonexistent'' \<notin> dom PRESETS" by (simp add: domIff)
  from get_preset_fallback[of "''nonexistent''"] d show ?thesis by blast
qed

section \<open>Properties of the job client\<close>

subsection \<open>One round of the wait loop\<close>


lemma wait_loop_step:
  assumes "non_terminal (status_reply e jid (polled w jid))"
  shows "wait_loop fmt e jid timeout start w =
           (if clock e (ticks w) - start > of_int timeout
            then Some (Inl (job_timeout_error fmt timeout),
                       w\<lparr>polled := (polled w)(jid := Suc (polled w jid)), ticks := Suc (ticks w)\<rparr>)
            else wait_loop fmt e jid timeout start
                       (w\<lparr>polled := (polled w)(jid := Suc (polled w jid)), ticks := Suc (ticks w)\<rparr>))"
  using assms
  by (subst wait_loop.simps)
     (auto simp: non_terminal_def get_job_status_def dict_item_def time_now_def
           split: sum.splits option.splits)

text \<open>
  The loop touches nothing but the clock readings and the polls of its own job: it
  downloads nothing, reports nothing and polls no other job.
\<close>

lemma wait_loop_frame:
  assumes "wait_loop fmt e jid timeout start w = Some y"
  shows "downloaded (snd y) = downloaded w \<and> reported (snd y) = reported w \<and>
         (\<forall>k. k \<noteq> jid \<longrightarrow> polled (snd y) k = polled w k)"
  using assms
proof (induct rule: wait_loop.raw_induct[rotated 1, consumes 1, case_names step])
  case (step loop fmt e jid timeout start w y)
  show ?case
  proof (cases "status_reply e jid (polled w jid)")
    case (Inl err)
    with step(2) show ?thesis by (auto simp: get_job_status_def)
  next
    case (Inr status)
    show ?thesis
    proof (cases "dict_item status ''status''")
      case (Inl err)
      with Inr step(2) show ?thesis by (auto simp: get_job_status_def)
    next
      case s: (Inr s)
      let ?w1 = "w\<lparr>polled := (polled w)(jid := Suc (polled w jid))\<rparr>"
      let ?w2 = "?w1\<lparr>ticks := Suc (ticks w)\<rparr>"
      consider "s = PStr ''completed''" | "s \<noteq> PStr ''completed''" "s = PStr ''failed''"
        | "s \<noteq> PStr ''completed''" "s \<noteq> PStr ''failed''" "clock e (ticks w) - start > of_int timeout"
        | "s \<noteq> PStr ''completed''" "s \<noteq> PStr ''failed''" "\<not> clock e (ticks w) - start > of_int timeout"
        by blast
      then show ?thesis
      proof cases
        case 1
        with Inr s step(2) show ?thesis by (auto simp: get_job_status_def)
      next
        case 2
        with Inr s step(2) show ?thesis by (auto simp: get_job_status_def)
      next
        case 3
        with Inr s step(2) show ?thesis by (auto simp: get_job_status_def time_now_def)
      next
        case 4
        with Inr s step(2) have "loop fmt e jid timeout start ?w2 = Some y"
          by (simp add: get_job_status_def time_now_def)
        from step(1)[OF this] show ?thesis by simp
      qed
    qed
  qed
qed

subsection \<open>The timeout\<close>

lemma world_after_poll:
  "w\<lparr>polled := (polled w)(jid := Suc (polled w jid)), ticks := Suc (ticks w)\<rparr>
     = w\<lparr>polled := (polled w)(jid := polled w jid + Suc 0), ticks := ticks w + Suc 0\<rparr>"
  by simp

text \<open>
  While every answer is a non-terminal snapshot, the loop ends at the first clock reading
  that is more than \<open>timeout\<close> seconds after \<open>start\<close>, having polled once before each
  reading.
\<close>

lemma wait_loop_times_out:
  assumes nt: "\<forall>n. non_terminal (status_reply e jid n)"
    and late: "clock e (ticks w + k) - start > of_int timeout"
    and early: "\<forall>i<k. \<not> clock e (ticks w + i) - start > of_int timeout"
  shows "wait_loop fmt e jid timeout start w =
           Some (Inl (job_timeout_error fmt timeout),
                 w\<lparr>polled := (polled w)(jid := polled w jid + Suc k), ticks := ticks w + Suc k\<rparr>)"
  using late early
proof (induction k arbitrary: w)
  case 0
  from nt have "non_terminal (status_reply e jid (polled w jid))" by simp
  from wait_loop_step[OF this, of fmt timeout start] 0(1)
  have "wait_loop fmt e jid timeout start w =
          Some (Inl (job_timeout_error fmt timeout),
                w\<lparr>polled := (polled w)(jid := Suc (polled w jid)), ticks := Suc (ticks w)\<rparr>)"
    by simp
  then show ?case by (simp only: world_after_poll)
next
  case (Suc k)
  let ?w2 = "w\<lparr>polled := (polled w)(jid := Suc (polled w jid)), ticks := Suc (ticks w)\<rparr>"
  from Suc.prems(2)[rule_format, of 0] have now: "\<not> clock e (ticks w) - start > of_int timeout"
    by simp
  have l: "clock e (ticks ?w2 + k) - start > of_int timeout"
    using Suc.prems(1) by simp
  have e: "\<forall>i<k. \<not> clock e (ticks ?w2 + i) - start > of_int timeout"
  proof (intro allI impI)
    fix i assume "i < k"
    then have "Suc i < Suc k" by simp
    from Suc.prems(2)[rule_format, OF this] show "\<not> clock e (ticks ?w2 + i) - start > of_int timeout"
      by simp
  qed
  from nt have "non_terminal (status_reply e jid (polled w jid))" by simp
  from wait_loop_step[OF this, of fmt timeout start] now
  have "wait_loop fmt e jid timeout start w = wait_loop fmt e jid timeout start ?w2"
    by simp
  also have "\<dots> = Some (Inl (job_timeout_error fmt timeout),
                 ?w2\<lparr>polled := (polled ?w2)(jid := polled ?w2 jid + Suc k), ticks := ticks ?w2 + Suc k\<rparr>)"
    by (rule Suc.IH[OF l e])
  also have "?w2\<lparr>polled := (polled ?w2)(jid := polled ?w2 jid + Suc k), ticks := ticks ?w2 + Suc k\<rparr>
      = w\<lparr>polled := (polled w)(jid := polled w jid + Suc (Suc k)), ticks := ticks w + Suc (Suc k)\<rparr>"
    by simp
  finally show ?case .
qed

text \<open>
  The test is \<open>time.time() - start_time > timeout\<close>, strictly: with a clock that no
  reading of which is more than \<open>timeout\<close> seconds after \<open>start\<close>, and a job that never
  reports a terminal state, the loop does not return.
\<close>

lemma wait_loop_never_returns:
  assumes "wait_loop fmt e jid timeout start w = Some y"
  shows "\<not> ((\<forall>n. non_terminal (status_reply e jid n)) \<and>
             (\<forall>n. \<not> clock e n - start > of_int timeout))"
  using assms
proof (induct rule: wait_loop.raw_induct[rotated 1, consumes 1, case_names step])
  case (step loop fmt e jid timeout start w y)
  show ?case
  proof
    assume a: "(\<forall>n. non_terminal (status_reply e jid n)) \<and>
               (\<forall>n. \<not> clock e n - start > of_int timeout)"
    then have "non_terminal (status_reply e jid (polled w jid))"
      and "\<not> clock e (ticks w) - start > of_int timeout"
      by simp_all
    with step(2)
    have "loop fmt e jid timeout start
            (w\<lparr>polled := (polled w)(jid := Suc (polled w jid)), ticks := Suc (ticks w)\<rparr>) = Some y"
      by (auto simp: non_terminal_def get_job_status_def dict_item_def time_now_def
               split: sum.splits option.splits)
    from step(1)[OF this] a show False by blast
  qed
qed

lemma wait_for_job_frame:
  assumes "wait_for_job fmt e jid timeout w = Some (r, w')"
  shows "downloaded w' = downloaded w" and "reported w' = reported w"
    and "k \<noteq> jid \<Longrightarrow> polled w' k = polled w k"
  using wait_loop_frame[of fmt e jid timeout "clock e (ticks w)" "w\<lparr>ticks := Suc (ticks w)\<rparr>" "(r, w')"]
    assms
  by (simp_all add: wait_for_job_def time_now_def)

lemma wait_for_job_failed:
  assumes "status_reply e jid (polled w jid) = Inr status"
    and "status ''status'' = Some (PStr ''failed'')"
  shows "wait_for_job fmt e jid timeout w =
           Some (Inl (job_failed_error fmt status),
                 w\<lparr>polled := (polled w)(jid := Suc (polled w jid)), ticks := Suc (ticks w)\<rparr>)"
  using assms
  by (simp add: wait_for_job_def time_now_def wait_loop.simps[of fmt e jid timeout _ "w\<lparr>ticks := Suc (ticks w)\<rparr>"]
        get_job_status_def dict_item_def)

lemma timeout_not_failed: "job_timeout_error fmt timeout \<noteq> job_failed_error fmt status"
  by (simp add: job_timeout_error_def job_failed_error_def)

text \<open>
  Claim C5. With \<open>timeout = 0\<close>, on a job whose every status answer is a non-terminal
  snapshot, \<open>wait_for_job\<close> returns, and what it returns is the timeout failure: it is
  raised at the first clock reading that is later than the reading taken when the call
  started, after one poll per reading (after exactly one poll when time has passed during
  the first poll). The elapsed time is measured from that first reading of the call. A
  job that reports \<open>failed\<close> raises the job failure, and the two failures are different
  values: both are an \<open>AIDPError\<close>, with the messages \<open>Job timed out after ...\<close> and
  \<open>Job failed: ...\<close>. That time passes, so that some later reading exceeds the first, is
  the hypothesis on the clock.
\<close>

theorem timeout_zero:
  "((\<forall>n. non_terminal (status_reply e jid n)) \<and>
    (\<exists>k. clock e (Suc (ticks w) + k) > clock e (ticks w))
    \<longrightarrow> (\<exists>k. clock e (Suc (ticks w) + k) > clock e (ticks w) \<and>
             (\<forall>i<k. \<not> clock e (Suc (ticks w) + i) > clock e (ticks w)) \<and>
             wait_for_job fmt e jid 0 w =
               Some (Inl (job_timeout_error fmt 0),
                     w\<lparr>polled := (polled w)(jid := polled w jid + Suc k),
                       ticks := ticks w + Suc (Suc k)\<rparr>))) \<and>
   (status_reply e jid (polled w jid) = Inr status \<and> status ''status'' = Some (PStr ''failed'')
    \<longrightarrow> wait_for_job fmt e jid timeout w =
          Some (Inl (job_failed_error fmt status),
                w\<lparr>polled := (polled w)(jid := Suc (polled w jid)), ticks := Suc (ticks w)\<rparr>)) \<and>
   job_timeout_error fmt 0 \<noteq> job_failed_error fmt status"
proof (intro conjI impI)
  assume a: "(\<forall>n. non_terminal (status_reply e jid n)) \<and>
    (\<exists>k. clock e (Suc (ticks w) + k) > clock e (ticks w))"
  then have nt: "\<forall>n. non_terminal (status_reply e jid n)" by simp
  from a have "\<exists>k. clock e (Suc (ticks w) + k) > clock e (ticks w)" by simp
  then obtain k where k: "clock e (Suc (ticks w) + k) > clock e (ticks w)"
    and least: "\<forall>i<k. \<not> clock e (Suc (ticks w) + i) > clock e (ticks w)"
    using exists_least_iff[of "\<lambda>k. clock e (Suc (ticks w) + k) > clock e (ticks w)"] by blast
  let ?w1 = "w\<lparr>ticks := Suc (ticks w)\<rparr>"
  have late: "clock e (ticks ?w1 + k) - clock e (ticks w) > of_int 0"
    using k by simp
  have early: "\<forall>i<k. \<not> clock e (ticks ?w1 + i) - clock e (ticks w) > of_int 0"
    using least by simp
  have "wait_for_job fmt e jid 0 w = wait_loop fmt e jid 0 (clock e (ticks w)) ?w1"
    by (simp add: wait_for_job_def time_now_def)
  also have "\<dots> = Some (Inl (job_timeout_error fmt 0),
        ?w1\<lparr>polled := (polled ?w1)(jid := polled ?w1 jid + Suc k), ticks := ticks ?w1 + Suc k\<rparr>)"
    by (rule wait_loop_times_out[OF nt late early])
  also have "?w1\<lparr>polled := (polled ?w1)(jid := polled ?w1 jid + Suc k), ticks := ticks ?w1 + Suc k\<rparr>
      = w\<lparr>polled := (polled w)(jid := polled w jid + Suc k), ticks := ticks w + Suc (Suc k)\<rparr>"
    by simp
  finally have "wait_for_job fmt e jid 0 w =
      Some (Inl (job_timeout_error fmt 0),
            w\<lparr>polled := (polled w)(jid := polled w jid + Suc k), ticks := ticks w + Suc (Suc k)\<rparr>)" .
  with k least
  show "\<exists>k. clock e (Suc (ticks w) + k) > clock e (ticks w) \<and>
             (\<forall>i<k. \<not> clock e (Suc (ticks w) + i) > clock e (ticks w)) \<and>
             wait_for_job fmt e jid 0 w =
               Some (Inl (job_timeout_error fmt 0),
                     w\<lparr>polled := (polled w)(jid := polled w jid + Suc k),
                       ticks := ticks w + Suc (Suc k)\<rparr>)"
    by blast
next
  assume "status_reply e jid (polled w jid) = Inr status \<and> status ''status'' = Some (PStr ''failed'')"
  then show "wait_for_job fmt e jid timeout w =
          Some (Inl (job_failed_error fmt status),
                w\<lparr>polled := (polled w)(jid := Suc (polled w jid)), ticks := Suc (ticks w)\<rparr>)"
    using wait_for_job_failed by blast
next
  show "job_timeout_error fmt 0 \<noteq> job_failed_error fmt status"
    by (rule timeout_not_failed)
qed

subsection \<open>The scenarios of the client\<close>

lemmas client_defs = wait_for_job_def time_now_def get_job_status_def dict_item_def dict_get_def
  download_file_def env_running_def env_batch_def world0_def snapshot_failed_def
  job_a_def job_b_def job_c_def job_failed_error_def job_timeout_error_def

text \<open>
  A job that is running at every poll, with a clock that advances by a second per
  reading: one poll, two readings, and the timeout failure. A job that has failed: one
  poll and the job failure.
\<close>

theorem timeout_zero_witness:
  "(\<forall>n. non_terminal (status_reply env_running ''j'' n)) \<and>
   clock env_running (Suc (ticks world0) + 0) > clock env_running (ticks world0) \<and>
   wait_for_job py_str env_running ''j'' 0 world0 =
     Some (Inl (AIDPError ''Job timed out after 0 seconds''),
           world0\<lparr>polled := (polled world0)(''j'' := 1), ticks := 2\<rparr>) \<and>
   status_reply env_batch ''b'' (polled world0 ''b'') = Inr snapshot_failed \<and>
   snapshot_failed ''status'' = Some (PStr ''failed'') \<and>
   wait_for_job py_str env_batch ''b'' 3600 world0 =
     Some (Inl (AIDPError ''Job failed: node lost''),
           world0\<lparr>polled := (polled world0)(''b'' := 1), ticks := 1\<rparr>) \<and>
   AIDPError ''Job timed out after 0 seconds'' \<noteq> AIDPError ''Job failed: node lost''"
proof -
  have nt: "\<forall>n. non_terminal (status_reply env_running ''j'' n)"
    by (simp add: env_running_def non_terminal_def)
  have adv: "clock env_running (Suc (ticks world0) + 0) > clock env_running (ticks world0)"
    by (simp add: env_running_def world0_def)
  have f1: "status_reply env_batch ''b'' (polled world0 ''b'') = Inr snapshot_failed"
    by (simp add: env_batch_def)
  have f2: "snapshot_failed ''status'' = Some (PStr ''failed'')"
    by (simp add: snapshot_failed_def)
  have m1: "job_timeout_error py_str 0 = AIDPError ''Job timed out after 0 seconds''"
    by (simp add: job_timeout_error_def show_int_def show_nat.simps digit_char_def)
  have m2: "job_failed_error py_str snapshot_failed = AIDPError ''Job failed: node lost''"
    by (simp add: job_failed_error_def snapshot_failed_def dict_get_def)
  note tz = timeout_zero[where e = env_running and jid = "''j''" and w = world0 and fmt = py_str
      and status = snapshot_failed and timeout = 0]
  from tz nt adv obtain k where
    least: "\<forall>i<k. \<not> clock env_running (Suc (ticks world0) + i) > clock env_running (ticks world0)"
    and res: "wait_for_job py_str env_running ''j'' 0 world0 =
               Some (Inl (job_timeout_error py_str 0),
                     world0\<lparr>polled := (polled world0)(''j'' := polled world0 ''j'' + Suc k),
                       ticks := ticks world0 + Suc (Suc k)\<rparr>)"
    by blast
  have "k = 0"
  proof (rule ccontr)
    assume "k \<noteq> 0"
    then have "0 < k" by simp
    with least adv show False by blast
  qed
  with res m1 have r1: "wait_for_job py_str env_running ''j'' 0 world0 =
     Some (Inl (AIDPError ''Job timed out after 0 seconds''),
           world0\<lparr>polled := (polled world0)(''j'' := 1), ticks := 2\<rparr>)"
    by (simp add: world0_def)
  from timeout_zero[where e = env_batch and jid = "''b''" and w = world0 and fmt = py_str
      and status = snapshot_failed and timeout = 3600] f1 f2 m2
  have r2: "wait_for_job py_str env_batch ''b'' 3600 world0 =
     Some (Inl (AIDPError ''Job failed: node lost''),
           world0\<lparr>polled := (polled world0)(''b'' := 1), ticks := 1\<rparr>)"
    by (simp add: world0_def)
  from tz m1 m2 have r3: "AIDPError ''Job timed out after 0 seconds'' \<noteq> AIDPError ''Job failed: node lost''"
    by simp
  from nt adv r1 f1 f2 r2 r3 show ?thesis by blast
qed

section \<open>Properties of the batch run\<close>

lemma wait_all_append_error:
  assumes "wait_all fmt e c pre w = Some (Inr c', w1)"
    and "wait_for_job fmt e (job_id j) 3600 w1 = Some (Inl err, w2)"
  shows "wait_all fmt e c (pre @ j # rest) w = Some (Inl err, w2)"
  using assms
proof (induction pre arbitrary: c w)
  case Nil
  then show ?case by simp
next
  case (Cons d ds)
  from Cons.prems(1) obtain result wa file_id path wb where
    1: "wait_for_job fmt e (job_id d) 3600 w = Some (Inr result, wa)"
    and 2: "dict_item result ''output_file_id'' = Inr file_id"
    and 3: "download_file e file_id (job_output d) wa = (Inr path, wb)"
    and 4: "wait_all fmt e (Suc c) ds (wb\<lparr>reported := reported wb @ [(Suc c, job_input d)]\<rparr>)
              = Some (Inr c', w1)"
    by (auto split: option.splits sum.splits prod.splits)
  from Cons.IH[OF 4 Cons.prems(2)] 1 2 3 show ?case by simp
qed

text \<open>
  A batch that ends without an exception has downloaded and reported every job, in
  order, and has polled none but its own jobs.
\<close>

lemma wait_all_done:
  assumes "wait_all fmt e c js w = Some (Inr c', w1)"
  shows "c' = c + length js \<and>
         map snd (downloaded w1) = map snd (downloaded w) @ map job_output js \<and>
         map snd (reported w1) = map snd (reported w) @ map job_input js \<and>
         (\<forall>k. k \<notin> job_id ` set js \<longrightarrow> polled w1 k = polled w k)"
  using assms
proof (induction js arbitrary: c w)
  case Nil
  then show ?case by simp
next
  case (Cons d ds)
  from Cons.prems obtain result wa file_id path wb where
    1: "wait_for_job fmt e (job_id d) 3600 w = Some (Inr result, wa)"
    and 2: "dict_item result ''output_file_id'' = Inr file_id"
    and 3: "download_file e file_id (job_output d) wa = (Inr path, wb)"
    and 4: "wait_all fmt e (Suc c) ds (wb\<lparr>reported := reported wb @ [(Suc c, job_input d)]\<rparr>)
              = Some (Inr c', w1)"
    by (auto split: option.splits sum.splits prod.splits)
  note fr = wait_for_job_frame[OF 1]
  from 3 have wb: "wb = wa\<lparr>downloaded := downloaded wa @ [(file_id, job_output d)]\<rparr>"
    by (auto simp: download_file_def split: option.splits)
  from Cons.IH[OF 4] wb fr show ?case by auto
qed

text \<open>
  Claim C3, as the specification states it: when a job of a batch has failed, the
  remaining jobs are still awaited, downloaded and reported. The code does not: in a
  batch of three where the second job has failed and the third is complete on the
  network, the run ends with the failure of the second; the third job is never polled,
  its result is not downloaded and no line is printed for it.
\<close>

theorem batch_aborts_on_failure:
  "wait_all py_str env_batch 0 [job_a, job_b, job_c] world0
     = Some (Inl (AIDPError ''Job failed: node lost''), world_after_b) \<and>
   polled world_after_b ''c'' = 0 \<and>
   downloaded world_after_b = [(PStr ''f-a'', ''out/a_processed.mp4'')] \<and>
   reported world_after_b = [(1, ''a.mp4'')] \<and>
   status_reply env_batch ''c'' 0
     = Inr (map_of [(''status'', PStr ''completed''), (''output_file_id'', PStr ''f-c'')])"
  by (simp add: client_defs wait_loop.simps world_after_b_def fun_eq_iff)

text \<open>
  Claim C3, amended: the batch awaits its jobs one after another, in the order of
  submission, and the first job whose wait raises (the job has failed, the wait timed
  out, or a status request failed) ends the run with that failure. The jobs before it
  were awaited, downloaded and reported; neither it nor any job after it is downloaded
  or reported, and no job after it is polled.
\<close>

theorem batch_stops_at_first_failure:
  assumes "wait_all fmt e c pre w = Some (Inr c', w1)"
    and "wait_for_job fmt e (job_id j) 3600 w1 = Some (Inl err, w2)"
  shows "wait_all fmt e c (pre @ j # rest) w = Some (Inl err, w2) \<and>
         map snd (downloaded w2) = map snd (downloaded w) @ map job_output pre \<and>
         map snd (reported w2) = map snd (reported w) @ map job_input pre \<and>
         (\<forall>k. k \<notin> job_id ` set (pre @ [j]) \<longrightarrow> polled w2 k = polled w k)"
proof -
  note d = wait_all_done[OF assms(1)]
  note f = wait_for_job_frame[OF assms(2)]
  have "wait_all fmt e c (pre @ j # rest) w = Some (Inl err, w2)"
    by (rule wait_all_append_error[OF assms])
  moreover have "map snd (downloaded w2) = map snd (downloaded w) @ map job_output pre"
    using d f(1) by simp
  moreover have "map snd (reported w2) = map snd (reported w) @ map job_input pre"
    using d f(2) by simp
  moreover have "\<forall>k. k \<notin> job_id ` set (pre @ [j]) \<longrightarrow> polled w2 k = polled w k"
    using d f(3) by auto
  ultimately show ?thesis by blast
qed

text \<open>The batch of three: \<open>a\<close> completes, \<open>b\<close> has failed, \<open>c\<close> is left alone.\<close>

theorem batch_stops_at_first_failure_witness:
  "wait_all py_str env_batch 0 [job_a] world0 = Some (Inr 1, world_after_a) \<and>
   wait_for_job py_str env_batch (job_id job_b) 3600 world_after_a
     = Some (Inl (AIDPError ''Job failed: node lost''), world_after_b) \<and>
   wait_all py_str env_batch 0 ([job_a] @ job_b # [job_c]) world0
     = Some (Inl (AIDPError ''Job failed: node lost''), world_after_b) \<and>
   map snd (downloaded world_after_b) = map snd (downloaded world0) @ map job_output [job_a] \<and>
   map snd (reported world_after_b) = map snd (reported world0) @ map job_input [job_a] \<and>
   polled world_after_b ''c'' = polled world0 ''c''"
proof -
  have a: "wait_all py_str env_batch 0 [job_a] world0 = Some (Inr 1, world_after_a)"
    by (simp add: client_defs wait_loop.simps world_after_a_def fun_eq_iff)
  have b: "wait_for_job py_str env_batch (job_id job_b) 3600 world_after_a
     = Some (Inl (AIDPError ''Job failed: node lost''), world_after_b)"
    by (simp add: client_defs wait_loop.simps world_after_a_def world_after_b_def fun_eq_iff)
  have c: "''c'' \<notin> job_id ` set ([job_a] @ [job_b])"
    by (simp add: job_a_def job_b_def)
  from batch_stops_at_first_failure[OF a b, of "[job_c]"] a b c show ?thesis by blast
qed

end
